theory Spec2Isabelle
  imports Main "HOL-Library.AList" "HOL-Library.Multiset"
begin

section \<open>Shared values\<close>

text \<open>
  A Go \<open>error\<close> value. \<open>Err msg\<close> is an error created with a message (by a collaborator
  or by \<open>fmt.Errorf\<close> without a cause), \<open>Wrap msg e\<close> is \<open>errors.Wrapf(e, msg)\<close> or
  \<open>fmt.Errorf("msg: %v", e)\<close>.
\<close>

datatype error = Err string | Wrap string error

text \<open>
  How a Go function that returns \<open>error\<close> ends: it returns \<open>nil\<close>, it returns an error,
  or it does not return because a slice was indexed out of range (the runtime panics with
  \<open>index out of range [i]\<close>; deferred calls still run).
\<close>

datatype outcome = ReturnNil | ReturnErr error | IndexPanic int

text \<open>
  A Go \<open>map[string]V\<close> is an association list with distinct keys: \<open>map_of\<close> reads it,
  \<open>AList.update\<close> assigns and \<open>AList.delete\<close> deletes. The order in which \<open>range\<close>
  visits a map is not specified by Go: it is decided by a rank that the surroundings
  assign to the keys of the map (\<open>mapRange\<close> below), so that every order of the entries
  is possible and nothing but an order of the entries is.
\<close>

type_synonym 'v gomap = "(string \<times> 'v) list"

section \<open>Environment merge engine (helm.go)\<close>

subsection \<open>Data\<close>

text \<open>
  Modelled from the spec: \<open>ProductService.FromZadig\<close> (package models, not among the
  sources). The spec classifies a service as Zadig-native (keyed by its service name) or as
  an externally imported chart release (keyed by its release name); the classification
  is carried as the field \<open>Origin\<close>.
\<close>

datatype origin = ZadigNative | ImportedChart

text \<open>The fields of \<open>commonmodels.ProductService\<close> that helm.go reads or writes.\<close>

record ProductService =
  ServiceName :: string
  ReleaseName :: string
  Origin :: origin
  DeployStrategy :: string
  UpdateTime :: int

definition FromZadig :: "ProductService \<Rightarrow> bool" where
  "FromZadig svc = (Origin svc = ZadigNative)"

text \<open>The fields of \<open>commonmodels.Product\<close> (the environment document) that helm.go uses.\<close>

record Product =
  ProductName :: string
  EnvName :: string
  Production :: bool
  Services :: "ProductService list list"
  ServiceDeployStrategy :: "string gomap"

text \<open>The two orchestrations of the project template (\<open>template.Product\<close>).\<close>

record TemplateProduct =
  TemplateServices :: "string list list"
  ProductionServices :: "string list list"

text \<open>
  Modelled from the spec: \<open>Product.GetServiceMap\<close> and \<open>Product.GetChartServiceMap\<close>
  (package models, not among the sources). The service classifier splits the grouped
  service list into the Zadig-native services keyed by service name and the imported chart
  releases keyed by release name; a later entry with the same key replaces an earlier one,
  as a Go map assignment does.
\<close>

definition GetServiceMap :: "ProductService list list \<Rightarrow> ProductService gomap" where
  "GetServiceMap groups =
     foldl (\<lambda>m svc. if FromZadig svc then AList.update (ServiceName svc) svc m else m) []
       (concat groups)"

definition GetChartServiceMap :: "ProductService list list \<Rightarrow> ProductService gomap" where
  "GetChartServiceMap groups =
     foldl (\<lambda>m svc. if \<not> FromZadig svc then AList.update (ReleaseName svc) svc m else m) []
       (concat groups)"

text \<open>\<open>setting.ServiceDeployStrategyDeploy\<close> and \<open>setting.ServiceDeployStrategyImport\<close>.\<close>

definition ServiceDeployStrategyDeploy :: string where
  "ServiceDeployStrategyDeploy = ''deploy''"

definition ServiceDeployStrategyImport :: string where
  "ServiceDeployStrategyImport = ''import''"

definition UpdateHelmEnvLockKey :: string where
  "UpdateHelmEnvLockKey = ''UpdateHelmEnv''"

text \<open>\<open>fmt.Sprintf("%s:%s:%s", UpdateHelmEnvLockKey, productName, envName)\<close>\<close>

definition envLockKey :: "string \<Rightarrow> string \<Rightarrow> string" where
  "envLockKey productName envName =
     UpdateHelmEnvLockKey @ '':'' @ productName @ '':'' @ envName"

subsection \<open>Effects\<close>

text \<open>
  The calls that a commit operation makes on its collaborators (session, transaction,
  lock, collections), in the order in which it makes them. A write event carries what
  is written.
\<close>

datatype event =
    SessionStart
  | SessionEnd
  | EvStartTransaction
  | EvAbortTransaction
  | EvCommitTransaction
  | EvCreateEnvServiceVersion
  | EvLock string
  | EvUnlock string
  | EvFindProduct string string
  | EvFindTemplate string
  | EvUpdate Product
  | EvUpdateAllServices string string "ProductService list list"
  | EvUpdateServicesGroup string string int "ProductService list"

text \<open>
  The collaborators of helm.go, none of which is among the sources: what each call
  answers. \<open>LintServices\<close> rewrites the grouped service list of a product in place;
  the four strategy setters of \<open>commonutil\<close> rewrite the strategy map; \<open>now\<close> is
  \<open>time.Now().Unix()\<close>; \<open>visitRank m\<close> ranks the keys of the map \<open>m\<close> for a \<open>range\<close> over it.
\<close>

record world =
  StartTransaction :: "error option"
  CommitTransaction :: "error option"
  ProductFind :: "string \<Rightarrow> string \<Rightarrow> error + Product"
  TemplateFind :: "string \<Rightarrow> error + TemplateProduct"
  ProductUpdate :: "Product \<Rightarrow> error option"
  ProductUpdateAllServices :: "string \<Rightarrow> string \<Rightarrow> ProductService list list \<Rightarrow> error option"
  ProductUpdateServicesGroup :: "string \<Rightarrow> string \<Rightarrow> int \<Rightarrow> ProductService list \<Rightarrow> error option"
  LintServices :: "ProductService list list \<Rightarrow> ProductService list list"
  SetServiceDeployStrategyDepoly :: "string gomap \<Rightarrow> string \<Rightarrow> string gomap"
  SetChartServiceDeployStrategyDepoly :: "string gomap \<Rightarrow> string \<Rightarrow> string gomap"
  SetServiceDeployStrategyImport :: "string gomap \<Rightarrow> string \<Rightarrow> string gomap"
  SetChartServiceDeployStrategyImport :: "string gomap \<Rightarrow> string \<Rightarrow> string gomap"
  now :: int
  visitRank :: "ProductService gomap \<Rightarrow> string \<Rightarrow> nat"

text \<open>\<open>for _, v := range m\<close> visits the entries of \<open>m\<close> by increasing rank of their keys.\<close>

definition mapRange :: "world \<Rightarrow> ProductService gomap \<Rightarrow> ProductService gomap" where
  "mapRange w m = sort_key (\<lambda>kv. visitRank w m (fst kv)) m"

subsection \<open>Rebuilding the grouped list\<close>

text \<open>
  \<open>xss[i] = append(xss[i], x)\<close>: Go panics when \<open>i\<close> is not an index of \<open>xss\<close>.
\<close>

definition appendAt :: "'a list list \<Rightarrow> int \<Rightarrow> 'a \<Rightarrow> int + 'a list list" where
  "appendAt xss i x =
     (if 0 \<le> i \<and> i < int (length xss) then Inr (xss[nat i := xss ! nat i @ [x]])
      else Inl i)"

text \<open>
  The inner loop of lines 176-181 and 253-258 (\<open>set services in order\<close>): every name of the
  template group that is a key of the native map is appended to group \<open>i\<close>.
\<close>

fun setServicesInOrder ::
  "ProductService gomap \<Rightarrow> int \<Rightarrow> string list \<Rightarrow> ProductService list list
     \<Rightarrow> int + ProductService list list" where
  "setServicesInOrder productSvcMap i [] newServices = Inr newServices"
| "setServicesInOrder productSvcMap i (svc # svcGroup) newServices =
     (case map_of productSvcMap svc of
        None \<Rightarrow> setServicesInOrder productSvcMap i svcGroup newServices
      | Some s \<Rightarrow>
          (case appendAt newServices i s of
             Inl p \<Rightarrow> Inl p
           | Inr newServices' \<Rightarrow> setServicesInOrder productSvcMap i svcGroup newServices'))"

text \<open>
  The outer loop of lines 169-182 and 246-259, from index \<open>i\<close> on: a new empty group is
  appended when \<open>len(newServices) >= i\<close>.
\<close>

fun replayOrchestration ::
  "ProductService gomap \<Rightarrow> nat \<Rightarrow> string list list \<Rightarrow> ProductService list list
     \<Rightarrow> int + ProductService list list" where
  "replayOrchestration productSvcMap i [] newServices = Inr newServices"
| "replayOrchestration productSvcMap i (svcGroup # rest) newServices =
     (let newServices1 =
            (if length newServices \<ge> i then newServices @ [[]] else newServices)
      in case setServicesInOrder productSvcMap (int i) svcGroup newServices1 of
           Inl p \<Rightarrow> Inl p
         | Inr newServices2 \<Rightarrow> replayOrchestration productSvcMap (Suc i) rest newServices2)"

text \<open>
  The loop of lines 184-186 and 261-263 (\<open>append chart services to the last group\<close>) over
  the chart services in the order in which the map is visited.
\<close>

fun appendChartServices ::
  "ProductService list \<Rightarrow> ProductService list list \<Rightarrow> int + ProductService list list" where
  "appendChartServices [] newServices = Inr newServices"
| "appendChartServices (service # rest) newServices =
     (case appendAt newServices (int (length newServices) - 1) service of
        Inl p \<Rightarrow> Inl p
      | Inr newServices' \<Rightarrow> appendChartServices rest newServices')"

text \<open>
  Lines 163-186 of \<open>UpdateHelmServiceInEnv\<close> and 245-263 of \<open>UpdateHelmAllServicesInEnv\<close>,
  which are the same code: the grouped list is rebuilt from the empty list. \<open>Inl i\<close> is
  the panic \<open>index out of range [i]\<close>.
\<close>

definition rebuildServices ::
  "world \<Rightarrow> string list list \<Rightarrow> ProductService gomap \<Rightarrow> ProductService gomap
     \<Rightarrow> int + ProductService list list" where
  "rebuildServices w serviceOrchestration productSvcMap productChartSvcMap =
     (case replayOrchestration productSvcMap 0 serviceOrchestration [] of
        Inl p \<Rightarrow> Inl p
      | Inr newServices \<Rightarrow>
          appendChartServices (map snd (mapRange w productChartSvcMap)) newServices)"

text \<open>
  Lines 309-322 of \<open>UpdateHelmServicesGroupInEnv\<close>: the same replay into one group;
  nothing is indexed.
\<close>

definition rebuildGroup ::
  "world \<Rightarrow> string list list \<Rightarrow> ProductService gomap \<Rightarrow> ProductService gomap
     \<Rightarrow> ProductService list" where
  "rebuildGroup w serviceOrchestration productSvcMap productChartSvcMap =
     foldl (\<lambda>newGroup service. newGroup @ [service])
       (foldl (\<lambda>newGroup svcGroup.
          foldl (\<lambda>newGroup svc.
             case map_of productSvcMap svc of
               None \<Rightarrow> newGroup
             | Some s \<Rightarrow> newGroup @ [s]) newGroup svcGroup) [] serviceOrchestration)
       (map snd (mapRange w productChartSvcMap))"

subsection \<open>The commit operations\<close>

text \<open>
  A commit operation yields the calls it made and how it ended. \<open>defer\<close> is written
  as a wrapper: the deferred call is made after the body, whatever the body's outcome.
\<close>

type_synonym run = "event list \<times> outcome"

definition emit :: "event \<Rightarrow> run \<Rightarrow> run" where
  "emit e body = (e # fst body, snd body)"

definition withSession :: "run \<Rightarrow> run" where
  "withSession body = (SessionStart # fst body @ [SessionEnd], snd body)"

definition withLock :: "string \<Rightarrow> run \<Rightarrow> run" where
  "withLock k body = (EvLock k # fst body @ [EvUnlock k], snd body)"

definition commitTransaction :: "world \<Rightarrow> run" where
  "commitTransaction w =
     ([EvCommitTransaction],
      case CommitTransaction w of None \<Rightarrow> ReturnNil | Some err \<Rightarrow> ReturnErr err)"

text \<open>
  Lines 142-155 of \<open>UpdateHelmServiceInEnv\<close>: the updated service is stored under its
  own key and the competing entry is deleted from the other map. In the second branch the
  loop over the native map stops at the first service with the release name.
\<close>

definition updateServiceMaps ::
  "world \<Rightarrow> ProductService \<Rightarrow> ProductService gomap \<Rightarrow> ProductService gomap
     \<Rightarrow> ProductService gomap \<times> ProductService gomap" where
  "updateServiceMaps w productSvc productSvcMap productChartSvcMap =
     (if FromZadig productSvc then
        (AList.update (ServiceName productSvc) (productSvc\<lparr>UpdateTime := now w\<rparr>) productSvcMap,
         AList.delete (ReleaseName productSvc) productChartSvcMap)
      else
        (case find (\<lambda>kv. ReleaseName (snd kv) = ReleaseName productSvc)
                (mapRange w productSvcMap) of
           None \<Rightarrow> productSvcMap
         | Some kv \<Rightarrow> AList.delete (ServiceName (snd kv)) productSvcMap,
         AList.update (ReleaseName productSvc) (productSvc\<lparr>UpdateTime := now w\<rparr>)
           productChartSvcMap))"

text \<open>Lines 188-200: the strategy map after the update of \<open>productSvc\<close>.\<close>

definition updateDeployStrategy ::
  "world \<Rightarrow> ProductService \<Rightarrow> string gomap \<Rightarrow> string gomap" where
  "updateDeployStrategy w productSvc strategy =
     (if DeployStrategy productSvc = ServiceDeployStrategyDeploy then
        (if FromZadig productSvc
         then SetServiceDeployStrategyDepoly w strategy (ServiceName productSvc)
         else SetChartServiceDeployStrategyDepoly w strategy (ReleaseName productSvc))
      else if DeployStrategy productSvc = ServiceDeployStrategyImport then
        (if FromZadig productSvc
         then SetServiceDeployStrategyImport w strategy (ServiceName productSvc)
         else SetChartServiceDeployStrategyImport w strategy (ReleaseName productSvc))
      else strategy)"

text \<open>
  \<open>UpdateHelmServiceInEnv\<close>, lines 113-209. The error of \<open>CreateEnvServiceVersion\<close> is
  only logged, so the model records the call and not its answer; \<open>product.LintServices()\<close>
  of line 122 rewrites the caller's copy, of which only the names and the production flag
  are read afterwards.
\<close>

definition UpdateHelmServiceInEnv ::
  "world \<Rightarrow> Product \<Rightarrow> ProductService \<Rightarrow> string \<Rightarrow> run" where
  "UpdateHelmServiceInEnv w product productSvc user =
     withSession (emit EvStartTransaction
       (case StartTransaction w of
          Some err \<Rightarrow> ([], ReturnErr err)
        | None \<Rightarrow>
            emit EvCreateEnvServiceVersion
              (withLock (envLockKey (ProductName product) (EnvName product))
                 (emit (EvFindProduct (ProductName product) (EnvName product))
                    (case ProductFind w (ProductName product) (EnvName product) of
                       Inl err \<Rightarrow>
                         ([EvAbortTransaction],
                          ReturnErr (Wrap (''failed to find product '' @ ProductName product) err))
                     | Inr newProductInfo \<Rightarrow>
                         (let linted = LintServices w (Services newProductInfo);
                              maps = updateServiceMaps w productSvc
                                       (GetServiceMap linted) (GetChartServiceMap linted)
                          in emit (EvFindTemplate (ProductName product))
                               (case TemplateFind w (ProductName product) of
                                  Inl err \<Rightarrow>
                                    ([EvAbortTransaction],
                                     ReturnErr (Wrap (''failed to find template product ''
                                                       @ ProductName product) err))
                                | Inr templateProduct \<Rightarrow>
                                    (let serviceOrchestration =
                                           (if Production product
                                            then ProductionServices templateProduct
                                            else TemplateServices templateProduct)
                                     in case rebuildServices w serviceOrchestration
                                               (fst maps) (snd maps) of
                                          Inl p \<Rightarrow> ([], IndexPanic p)
                                        | Inr newServices \<Rightarrow>
                                            (let newProductInfo' = newProductInfo
                                                   \<lparr>Services := newServices,
                                                    ServiceDeployStrategy :=
                                                      updateDeployStrategy w productSvc
                                                        (ServiceDeployStrategy newProductInfo)\<rparr>
                                             in emit (EvUpdate newProductInfo')
                                                  (case ProductUpdate w newProductInfo' of
                                                     Some err \<Rightarrow>
                                                       ([EvAbortTransaction],
                                                        ReturnErr (Err
                                                          (''failed to update product info, name ''
                                                             @ ProductName newProductInfo')))
                                                   | None \<Rightarrow> commitTransaction w))))))))))"

text \<open>\<open>UpdateHelmAllServicesInEnv\<close>, lines 212-273.\<close>

definition UpdateHelmAllServicesInEnv ::
  "world \<Rightarrow> string \<Rightarrow> string \<Rightarrow> ProductService list list \<Rightarrow> bool \<Rightarrow> run" where
  "UpdateHelmAllServicesInEnv w productName envName services production =
     withSession (emit EvStartTransaction
       (case StartTransaction w of
          Some err \<Rightarrow> ([], ReturnErr err)
        | None \<Rightarrow>
            withLock (envLockKey productName envName)
              (emit (EvFindTemplate productName)
                 (case TemplateFind w productName of
                    Inl err \<Rightarrow>
                      ([EvAbortTransaction],
                       ReturnErr (Wrap (''failed to find template product '' @ productName) err))
                  | Inr templateProduct \<Rightarrow>
                      (let serviceOrchestration =
                             (if production then ProductionServices templateProduct
                              else TemplateServices templateProduct);
                           dummyEnv = LintServices w services
                       in case rebuildServices w serviceOrchestration
                                 (GetServiceMap dummyEnv) (GetChartServiceMap dummyEnv) of
                            Inl p \<Rightarrow> ([], IndexPanic p)
                          | Inr newServices \<Rightarrow>
                              emit (EvUpdateAllServices productName envName newServices)
                                (case ProductUpdateAllServices w productName envName
                                        newServices of
                                   Some err \<Rightarrow>
                                     ([EvAbortTransaction],
                                      ReturnErr (Wrap (''failed to update '' @ productName @ ''/''
                                                   @ envName @ '' product services'') err))
                                 | None \<Rightarrow> commitTransaction w))))))"

text \<open>\<open>UpdateHelmServicesGroupInEnv\<close>, lines 276-332.\<close>

definition UpdateHelmServicesGroupInEnv ::
  "world \<Rightarrow> string \<Rightarrow> string \<Rightarrow> int \<Rightarrow> ProductService list \<Rightarrow> bool \<Rightarrow> run" where
  "UpdateHelmServicesGroupInEnv w productName envName index grp production =
     withSession (emit EvStartTransaction
       (case StartTransaction w of
          Some err \<Rightarrow> ([], ReturnErr err)
        | None \<Rightarrow>
            withLock (envLockKey productName envName)
              (emit (EvFindTemplate productName)
                 (case TemplateFind w productName of
                    Inl err \<Rightarrow>
                      ([EvAbortTransaction],
                       ReturnErr (Wrap (''failed to find template product '' @ productName) err))
                  | Inr templateProduct \<Rightarrow>
                      (let serviceOrchestration =
                             (if production then ProductionServices templateProduct
                              else TemplateServices templateProduct);
                           dummyEnv = LintServices w [grp];
                           newGroup = rebuildGroup w serviceOrchestration
                                        (GetServiceMap dummyEnv) (GetChartServiceMap dummyEnv)
                       in emit (EvUpdateServicesGroup productName envName index newGroup)
                            (case ProductUpdateServicesGroup w productName envName index
                                    newGroup of
                               Some err \<Rightarrow>
                                 ([EvAbortTransaction],
                                  ReturnErr (Wrap (''failed to update '' @ productName @ ''/''
                                               @ envName @ '' product services'') err))
                             | None \<Rightarrow> commitTransaction w))))))"

subsection \<open>Vocabulary of the properties\<close>

text \<open>What a write call hands to the storage: the services of the written document or group.\<close>

fun writtenServices :: "event \<Rightarrow> ProductService list" where
  "writtenServices (EvUpdate p) = concat (Services p)"
| "writtenServices (EvUpdateAllServices productName envName services) = concat services"
| "writtenServices (EvUpdateServicesGroup productName envName index services) = services"
| "writtenServices e = []"

text \<open>The services persisted by a run: what it wrote, if it ended by returning \<open>nil\<close>.\<close>

definition committedServices :: "run \<Rightarrow> ProductService list" where
  "committedServices r =
     (if snd r = ReturnNil then concat (map writtenServices (fst r)) else [])"




subsection \<open>Example values\<close>

text \<open>
  A project whose template has the two groups \<open>[[a, b], [c]]\<close>, and an environment that
  runs the native services \<open>a\<close>, \<open>b\<close>, \<open>c\<close> and the imported release \<open>r\<close>.
\<close>

definition nativeSvc :: "string \<Rightarrow> string \<Rightarrow> ProductService" where
  "nativeSvc name release =
     \<lparr>ServiceName = name, ReleaseName = release, Origin = ZadigNative,
      DeployStrategy = ''deploy'', UpdateTime = 0\<rparr>"

definition chartSvc :: "string \<Rightarrow> ProductService" where
  "chartSvc release =
     \<lparr>ServiceName = [], ReleaseName = release, Origin = ImportedChart,
      DeployStrategy = ''deploy'', UpdateTime = 0\<rparr>"

definition exampleTemplate :: TemplateProduct where
  "exampleTemplate = \<lparr>TemplateServices = [[''a'', ''b''], [''c'']], ProductionServices = []\<rparr>"

definition exampleEnv :: Product where
  "exampleEnv =
     \<lparr>ProductName = ''p'', EnvName = ''dev'', Production = False,
      Services = [[nativeSvc ''a'' ''ra'', nativeSvc ''b'' ''rb''],
                  [nativeSvc ''c'' ''rc'', chartSvc ''r'']],
      ServiceDeployStrategy = []\<rparr>"

definition exampleWorld :: world where
  "exampleWorld =
     \<lparr>StartTransaction = None,
      CommitTransaction = None,
      ProductFind = (\<lambda>productName envName. Inr exampleEnv),
      TemplateFind = (\<lambda>productName. Inr exampleTemplate),
      ProductUpdate = (\<lambda>p. None),
      ProductUpdateAllServices = (\<lambda>productName envName services. None),
      ProductUpdateServicesGroup = (\<lambda>productName envName index services. None),
      LintServices = (\<lambda>services. services),
      SetServiceDeployStrategyDepoly = (\<lambda>m k. AList.update k ''deploy'' m),
      SetChartServiceDeployStrategyDepoly = (\<lambda>m k. AList.update k ''deploy'' m),
      SetServiceDeployStrategyImport = (\<lambda>m k. AList.update k ''import'' m),
      SetChartServiceDeployStrategyImport = (\<lambda>m k. AList.update k ''import'' m),
      now = 1700000000,
      visitRank = (\<lambda>m k. 0)\<rparr>"

section \<open>Job compiler (the testing job)\<close>

subsection \<open>Constants of the packages config, setting and types\<close>

text \<open>
  The named constants that the testing job compares with. Their packages are not among
  the sources; the properties below use no more of their values than that the constants
  of one kind differ from each other and from the empty string where the code compares
  with it.
\<close>

definition ProductTestType :: string where "ProductTestType = ''''"
definition ServiceTestType :: string where "ServiceTestType = ''service_test''"
definition SourceFromJob :: string where "SourceFromJob = ''fromjob''"
definition JobZadigBuild :: string where "JobZadigBuild = ''zadig-build''"
definition JobZadigDistributeImage :: string where
  "JobZadigDistributeImage = ''zadig-distribute-image''"
definition JobZadigDeploy :: string where "JobZadigDeploy = ''zadig-deploy''"
definition JobZadigScanning :: string where "JobZadigScanning = ''zadig-scanning''"
definition JobZadigTesting :: string where "JobZadigTesting = ''zadig-test''"
definition JobVMInfrastructure :: string where "JobVMInfrastructure = ''vm''"
definition ObjectMedium :: string where "ObjectMedium = ''object''"
definition NFSMedium :: string where "NFSMedium = ''nfs''"
definition UserDefinedCacheDir :: string where "UserDefinedCacheDir = ''user_defined''"
definition ScriptTypeShell :: string where "ScriptTypeShell = ''shell''"
definition ScriptTypeBatchFile :: string where "ScriptTypeBatchFile = ''batch_file''"
definition ScriptTypePowerShell :: string where "ScriptTypePowerShell = ''powershell''"
definition TestJobHTMLReportStepName :: string where
  "TestJobHTMLReportStepName = ''html-report''"
definition TestJobArchiveResultStepName :: string where
  "TestJobArchiveResultStepName = ''archive-result''"
definition TestJobJunitReportStepName :: string where
  "TestJobJunitReportStepName = ''junit-report''"
definition TestJobObjectStorageStepName :: string where
  "TestJobObjectStorageStepName = ''object-storage''"
definition JobNameKey :: string where "JobNameKey = ''job_name''"

text \<open>The step types of package config that the task assembler emits.\<close>

datatype StepType =
    StepNone
  | StepTools
  | StepDownloadArchive
  | StepGit
  | StepDebugBefore
  | StepShell
  | StepBatchFile
  | StepPowerShell
  | StepDebugAfter
  | StepArchive
  | StepTarArchive
  | StepJunitReport

subsection \<open>Data of the job compiler\<close>

text \<open>
  The structs of commonmodels, types and step, with the fields that the testing job reads
  or writes. A field whose name is used by another struct carries the struct as a suffix.
\<close>

record KeyVal =
  Key :: string
  Value :: string
  IsCredential :: bool

record Repository =
  RepoOwner :: string
  RepoName :: string
  Branch :: string

record Output =
  OutputName :: string

record TestModule =
  TestName :: string
  ProjectName :: string
  KeyVals :: "KeyVal list"
  Repos :: "Repository list"

record ServiceAndTest =
  ServiceName_sat :: string
  ServiceModule_sat :: string
  TestModule_sat :: TestModule

record ServiceTestTarget =
  ServiceName_tgt :: string
  ServiceModule_tgt :: string

record ZadigTestingJobSpec =
  TestType :: string
  Source :: string
  JobName :: string
  OriginJobName :: string
  TargetServices :: "ServiceTestTarget list"
  TestModules :: "TestModule list"
  ServiceAndTests :: "ServiceAndTest list"

record ServiceAndBuild =
  ServiceName_bld :: string
  ServiceModule_bld :: string

record ZadigBuildJobSpec =
  ServiceAndBuilds :: "ServiceAndBuild list"

record DistributeTarget =
  ServiceName_dst :: string
  ServiceModule_dst :: string

record ZadigDistributeImageJobSpec =
  Targets :: "DistributeTarget list"

record DeployModuleInfo =
  ServiceModule_mod :: string

record DeployServiceInfo =
  ServiceName_dep :: string
  Modules :: "DeployModuleInfo list"

record ZadigDeployJobSpec =
  Services_dep :: "DeployServiceInfo list"

record ZadigScanningJobSpec =
  TargetServices_scan :: "ServiceTestTarget list"

text \<open>
  The payload \<open>Spec interface{}\<close> of a job: whatever was stored there. The decoders
  \<open>IToi\<close> and \<open>IToiYaml\<close>, which turn a payload into a typed spec or fail, are
  collaborators (see \<open>catalog\<close> below).
\<close>

datatype JobSpec =
    TestingSpec ZadigTestingJobSpec
  | BuildSpec ZadigBuildJobSpec
  | DistributeSpec ZadigDistributeImageJobSpec
  | DeploySpec ZadigDeployJobSpec
  | ScanningSpec ZadigScanningJobSpec
  | RawSpec string

record Job =
  Name :: string
  JobType :: string
  Spec :: JobSpec

record WorkflowStage =
  Jobs :: "Job list"

record WorkflowV4 =
  WorkflowName :: string
  Project :: string
  DisplayName :: string
  Stages :: "WorkflowStage list"

record PreTest =
  ImageID :: string
  Envs_pre :: "KeyVal list"
  ClusterID_pre :: string
  Installs :: "(string \<times> string) list"

record ObjectStorageUpload =
  Enabled :: bool
  ObjectStorageID :: string

record PostTest =
  ObjectStorageUploadOf :: "ObjectStorageUpload option"

text \<open>\<open>commonmodels.Testing\<close>, the catalog definition of a test suite.\<close>

record TestingInfo =
  Name_info :: string
  Timeout_info :: int
  Outputs_info :: "Output list"
  Infrastructure_info :: string
  CacheEnable_info :: bool
  CacheDirType_info :: string
  CacheUserDir_info :: string
  Repos_info :: "Repository list"
  ScriptType :: string
  TestReportPath :: string
  ArtifactPaths :: "string list"
  TestResultPath :: string
  PreTestOf :: PreTest
  PostTestOf :: "PostTest option"

text \<open>\<open>types.Cache\<close>, with \<open>ObjectProperties.ID\<close> and \<open>NFSProperties.Subpath\<close>.\<close>

record ClusterCache =
  MediumType :: string
  ObjectID :: string
  NFSSubpath :: string

record K8SCluster =
  Cache_cluster :: ClusterCache

record BasicImage =
  Value_img :: string

record S3Storage =
  S3ID :: string

record JobProperties =
  Timeout :: int
  CustomEnvs :: "KeyVal list"
  Envs :: "KeyVal list"
  ClusterID :: string
  BuildOS :: string
  Registries :: "string list"
  CacheEnable :: bool
  CacheDirType :: string
  CacheUserDir :: string
  Cache :: ClusterCache

text \<open>A step of a task: the type-specific payload of a step is not modelled.\<close>

record StepTask =
  StepName :: string
  StepJobName :: string
  StepTypeOf :: StepType
  Onfailure :: bool

text \<open>
  \<open>commonmodels.JobTask\<close> together with its \<open>JobTaskFreestyleSpec\<close>, which the task
  points to: \<open>Properties\<close> and \<open>Steps\<close> are the fields of that spec.
\<close>

record JobTask =
  TaskName :: string
  TaskKey :: string
  JobInfo :: "(string \<times> string) list"
  TaskJobType :: string
  TaskTimeout :: int
  Outputs :: "Output list"
  Infrastructure :: string
  Properties :: JobProperties
  Steps :: "StepTask list"

text \<open>
  The collaborators of the testing job, none of which is among the sources: the catalog
  collections, the payload decoders, and the helpers of the package (\<open>mergeRepos\<close>,
  \<open>renderKeyVals\<close>, \<open>renderEnv\<close>, \<open>jobNameFormat\<close>, \<open>getOutputKey\<close>,
  \<open>getOriginJobName\<close>, \<open>PrepareDefaultWorkflowTaskEnvs\<close>, \<open>getReposVariables\<close>), the
  random suffix \<open>rand.String(5)\<close>, \<open>configbase.SystemAddress\<close>, \<open>url.QueryEscape\<close> and
  the decimal rendering of \<open>%d\<close>.
\<close>

record catalog =
  IToi_testing :: "JobSpec \<Rightarrow> error + ZadigTestingJobSpec"
  IToiYaml_testing :: "JobSpec \<Rightarrow> error + ZadigTestingJobSpec"
  IToi_build :: "JobSpec \<Rightarrow> error + ZadigBuildJobSpec"
  IToi_distribute :: "JobSpec \<Rightarrow> error + ZadigDistributeImageJobSpec"
  IToi_deploy :: "JobSpec \<Rightarrow> error + ZadigDeployJobSpec"
  IToi_scanning :: "JobSpec \<Rightarrow> error + ZadigScanningJobSpec"
  TestingColl_Find :: "string \<Rightarrow> error + TestingInfo"
  TestingColl_List :: "string list \<Rightarrow> error + TestingInfo list"
  BasicImageColl_Find :: "string \<Rightarrow> error + BasicImage"
  ListRegistryNamespaces :: "error + string list"
  K8SClusterColl_Get :: "string \<Rightarrow> error + K8SCluster"
  S3StorageColl_Find :: "string \<Rightarrow> error + S3Storage"
  S3StorageColl_FindDefault :: "error + S3Storage"
  mergeRepos :: "Repository list \<Rightarrow> Repository list \<Rightarrow> Repository list"
  renderKeyVals :: "KeyVal list \<Rightarrow> KeyVal list \<Rightarrow> KeyVal list"
  renderEnv :: "string \<Rightarrow> KeyVal list \<Rightarrow> string"
  jobNameFormat :: "string \<Rightarrow> string"
  randString :: string
  getOutputKey :: "string \<Rightarrow> Output list \<Rightarrow> string list"
  getOriginJobName :: "WorkflowV4 \<Rightarrow> string \<Rightarrow> string"
  PrepareDefaultWorkflowTaskEnvs ::
    "string \<Rightarrow> string \<Rightarrow> string \<Rightarrow> string \<Rightarrow> int \<Rightarrow> KeyVal list"
  getReposVariables :: "Repository list \<Rightarrow> KeyVal list"
  SystemAddress :: string
  QueryEscape :: "string \<Rightarrow> string"
  showInt :: "int \<Rightarrow> string"

text \<open>\<open>strings.Join(parts, ".")\<close>\<close>

fun joinDot :: "string list \<Rightarrow> string" where
  "joinDot [] = []"
| "joinDot [x] = x"
| "joinDot (x # y # ys) = x @ ''.'' @ joinDot (y # ys)"

subsection \<open>SetPreset\<close>

text \<open>
  Lines 63-69 and 83-89: the catalog definition of the suite is looked up; when the lookup
  fails the error is logged and the loop continues with the next entry, so the entry
  stays as it is.
\<close>

definition presetTestModule :: "catalog \<Rightarrow> TestModule \<Rightarrow> TestModule" where
  "presetTestModule cat testing =
     (case TestingColl_Find cat (TestName testing) of
        Inl err \<Rightarrow> testing
      | Inr testingInfo \<Rightarrow>
          testing\<lparr>Repos := mergeRepos cat (Repos_info testingInfo) (Repos testing),
                  KeyVals := renderKeyVals cat (KeyVals testing)
                               (Envs_pre (PreTestOf testingInfo))\<rparr>)"

text \<open>\<open>fmt.Sprintf("%s/%s", serviceName, serviceModule)\<close>\<close>

definition serviceKey :: "string \<Rightarrow> string \<Rightarrow> string" where
  "serviceKey serviceName serviceModule = serviceName @ ''/'' @ serviceModule"

text \<open>
  \<open>SetPreset\<close>, lines 54-101: the error it returns, or the typed spec that it stores in
  the job.
\<close>

definition SetPreset :: "catalog \<Rightarrow> WorkflowV4 \<Rightarrow> Job \<Rightarrow> error + ZadigTestingJobSpec" where
  "SetPreset cat workflow job =
     (case IToi_testing cat (Spec job) of
        Inl err \<Rightarrow> Inl err
      | Inr spec0 \<Rightarrow>
          (let spec1 = (if TestType spec0 = ProductTestType
                        then spec0\<lparr>TestModules := map (presetTestModule cat) (TestModules spec0)\<rparr>
                        else spec0);
               spec2 = (if Source spec1 = SourceFromJob
                        then spec1\<lparr>OriginJobName := JobName spec1,
                                   JobName := getOriginJobName cat workflow (JobName spec1)\<rparr>
                        else spec1);
               spec3 = (if TestType spec2 = ServiceTestType
                        then (let serviceMap =
                                    map (\<lambda>testing. serviceKey (ServiceName_sat testing)
                                                       (ServiceModule_sat testing))
                                      (ServiceAndTests spec2)
                              in spec2\<lparr>ServiceAndTests :=
                                          map (\<lambda>testing. testing\<lparr>TestModule_sat :=
                                                 presetTestModule cat (TestModule_sat testing)\<rparr>)
                                            (ServiceAndTests spec2),
                                        TargetServices :=
                                          filter (\<lambda>target. serviceKey (ServiceName_tgt target)
                                                             (ServiceModule_tgt target)
                                                           \<in> set serviceMap)
                                            (TargetServices spec2)\<rparr>)
                        else spec2)
           in Inr spec3))"

subsection \<open>Cross-job target resolver\<close>

text \<open>
  The inner loop of \<open>getOriginReferedJobTargets\<close>, lines 274-327, over the jobs of one
  stage: \<open>Some\<close> is what the function returns from inside the loop, \<open>None\<close> means that
  the loop ended without a return.
\<close>

fun refereredJobTargetsOfJobs ::
  "catalog \<Rightarrow> string \<Rightarrow> Job list \<Rightarrow> (error + ServiceTestTarget list) option" where
  "refereredJobTargetsOfJobs cat jobName [] = None"
| "refereredJobTargetsOfJobs cat jobName (job # jobs) =
     (if Name job \<noteq> jobName then refereredJobTargetsOfJobs cat jobName jobs
      else if JobType job = JobZadigBuild then
        Some (case IToi_build cat (Spec job) of
                Inl err \<Rightarrow> Inl err
              | Inr buildSpec \<Rightarrow>
                  Inr (map (\<lambda>build. \<lparr>ServiceName_tgt = ServiceName_bld build,
                                      ServiceModule_tgt = ServiceModule_bld build\<rparr>)
                         (ServiceAndBuilds buildSpec)))
      else if JobType job = JobZadigDistributeImage then
        Some (case IToi_distribute cat (Spec job) of
                Inl err \<Rightarrow> Inl err
              | Inr distributeSpec \<Rightarrow>
                  Inr (map (\<lambda>distribute. \<lparr>ServiceName_tgt = ServiceName_dst distribute,
                                           ServiceModule_tgt = ServiceModule_dst distribute\<rparr>)
                         (Targets distributeSpec)))
      else if JobType job = JobZadigDeploy then
        Some (case IToi_deploy cat (Spec job) of
                Inl err \<Rightarrow> Inl err
              | Inr deploySpec \<Rightarrow>
                  Inr (concat (map (\<lambda>svc.
                         map (\<lambda>module. \<lparr>ServiceName_tgt = ServiceName_dep svc,
                                          ServiceModule_tgt = ServiceModule_mod module\<rparr>)
                           (Modules svc))
                         (Services_dep deploySpec))))
      else if JobType job = JobZadigScanning then
        Some (case IToi_scanning cat (Spec job) of
                Inl err \<Rightarrow> Inl err
              | Inr scanningSpec \<Rightarrow> Inr (TargetServices_scan scanningSpec))
      else refereredJobTargetsOfJobs cat jobName jobs)"

text \<open>The outer loop over the stages, and the error of line 329 when it ends.\<close>

fun refereredJobTargetsOfStages ::
  "catalog \<Rightarrow> string \<Rightarrow> WorkflowStage list \<Rightarrow> error + ServiceTestTarget list" where
  "refereredJobTargetsOfStages cat jobName [] =
     Inl (Err (''build job '' @ jobName @ '' not found''))"
| "refereredJobTargetsOfStages cat jobName (stage # stages) =
     (case refereredJobTargetsOfJobs cat jobName (Jobs stage) of
        Some r \<Rightarrow> r
      | None \<Rightarrow> refereredJobTargetsOfStages cat jobName stages)"

definition getOriginReferedJobTargets ::
  "catalog \<Rightarrow> WorkflowV4 \<Rightarrow> string \<Rightarrow> error + ServiceTestTarget list" where
  "getOriginReferedJobTargets cat workflow jobName =
     refereredJobTargetsOfStages cat jobName (Stages workflow)"

subsection \<open>Task assembler\<close>

text \<open>
  \<open>getTestingJobVariables\<close>, lines 688-704. After the repositories, the task and the
  three names of the workflow, the function takes the six strings that identify the test:
  project and name of the suite, test type, service, module and infrastructure.
\<close>

type_synonym testVariables =
  "string \<Rightarrow> string \<Rightarrow> string \<Rightarrow> string \<Rightarrow> string \<Rightarrow> string \<Rightarrow> KeyVal list"

definition getTestingJobVariables ::
  "catalog \<Rightarrow> Repository list \<Rightarrow> int \<Rightarrow> string \<Rightarrow> string \<Rightarrow> string \<Rightarrow> testVariables" where
  "getTestingJobVariables cat repos taskID project workflowName workflowDisplayName
       testingProject testingName testType serviceName serviceModule infrastructure =
     PrepareDefaultWorkflowTaskEnvs cat project workflowName workflowDisplayName
         infrastructure taskID
       @ getReposVariables cat repos
       @ [\<lparr>Key = ''TESTING_PROJECT'', Value = testingProject, IsCredential = False\<rparr>,
          \<lparr>Key = ''TESTING_NAME'', Value = testingName, IsCredential = False\<rparr>,
          \<lparr>Key = ''TESTING_TYPE'', Value = testType, IsCredential = False\<rparr>,
          \<lparr>Key = ''SERVICE'', Value = serviceName, IsCredential = False\<rparr>,
          \<lparr>Key = ''SERVICE_NAME'', Value = serviceName, IsCredential = False\<rparr>,
          \<lparr>Key = ''SERVICE_MODULE'', Value = serviceModule, IsCredential = False\<rparr>,
          \<lparr>Key = ''BUILD_URL'',
           Value = SystemAddress cat @ ''/v1/projects/detail/'' @ project
                     @ ''/pipelines/custom/'' @ workflowName @ ''/'' @ showInt cat taskID
                     @ ''?display_name='' @ QueryEscape cat workflowDisplayName,
           IsCredential = False\<rparr>]"

text \<open>\<open>&commonmodels.S3Storage{}\<close>\<close>

definition emptyS3 :: S3Storage where
  "emptyS3 = \<lparr>S3ID = ''''\<rparr>"

text \<open>
  Lines 399-430 of \<open>toJobtask\<close>: the cache fields of the properties, with the error of a
  failed lookup of the cache store or else the cache store.
\<close>

definition cacheProperties ::
  "catalog \<Rightarrow> TestingInfo \<Rightarrow> K8SCluster \<Rightarrow> string \<Rightarrow> JobProperties
     \<Rightarrow> JobProperties \<times> (error + S3Storage)" where
  "cacheProperties cat testingInfo clusterInfo infrastructure props =
     (if infrastructure = JobVMInfrastructure then
        (props\<lparr>CacheEnable := CacheEnable_info testingInfo,
               CacheDirType := CacheDirType_info testingInfo,
               CacheUserDir := CacheUserDir_info testingInfo\<rparr>, Inr emptyS3)
      else
        (case (if MediumType (Cache_cluster clusterInfo) = '''' then
                 (props\<lparr>CacheEnable := False\<rparr>, Inr emptyS3)
               else
                 (let props1 = props\<lparr>Cache := Cache_cluster clusterInfo,
                                      CacheEnable := CacheEnable_info testingInfo,
                                      CacheDirType := CacheDirType_info testingInfo,
                                      CacheUserDir := CacheUserDir_info testingInfo\<rparr>
                  in if MediumType (Cache props1) = ObjectMedium then
                       (case S3StorageColl_Find cat (ObjectID (Cache props1)) of
                          Inl err \<Rightarrow>
                            (props1, Inl (Wrap (''find cache s3 storage: ''
                                                 @ ObjectID (Cache props1) @ '' error'') err))
                        | Inr s3 \<Rightarrow> (props1, Inr s3))
                     else (props1, Inr emptyS3))) of
           (props1, Inl err) \<Rightarrow> (props1, Inl err)
         | (props1, Inr cacheS3) \<Rightarrow>
             (if CacheEnable props1 then
                (let props2 = props1\<lparr>CacheUserDir :=
                                        renderEnv cat (CacheUserDir props1) (Envs props1)\<rparr>
                 in if MediumType (Cache props2) = NFSMedium then
                      (props2\<lparr>Cache := (Cache props2)
                                 \<lparr>NFSSubpath := renderEnv cat (NFSSubpath (Cache props2))
                                                  (Envs props2)\<rparr>\<rparr>, Inr cacheS3)
                    else if MediumType (Cache props2) = ObjectMedium then
                      (case S3StorageColl_Find cat (ObjectID (Cache props2)) of
                         Inl err \<Rightarrow>
                           (props2, Inl (Wrap (''find cache s3 storage: ''
                                                @ ObjectID (Cache props2) @ '' error'') err))
                       | Inr s3 \<Rightarrow> (props2, Inr s3))
                    else (props2, Inr cacheS3))
              else (props1, Inr cacheS3))))"

text \<open>Lines 486-508: the script step chosen by the script type of the suite.\<close>

definition scriptStep :: "TestModule \<Rightarrow> TestingInfo \<Rightarrow> string \<Rightarrow> StepTask" where
  "scriptStep testing testingInfo taskName =
     (if ScriptType testingInfo = ScriptTypeShell \<or> ScriptType testingInfo = '''' then
        \<lparr>StepName = TestName testing @ ''-shell'', StepJobName = taskName,
         StepTypeOf = StepShell, Onfailure = False\<rparr>
      else if ScriptType testingInfo = ScriptTypeBatchFile then
        \<lparr>StepName = TestName testing @ ''-batchfile'', StepJobName = taskName,
         StepTypeOf = StepBatchFile, Onfailure = False\<rparr>
      else if ScriptType testingInfo = ScriptTypePowerShell then
        \<lparr>StepName = TestName testing @ ''-powershell'', StepJobName = taskName,
         StepTypeOf = StepPowerShell, Onfailure = False\<rparr>
      else
        \<lparr>StepName = '''', StepJobName = taskName, StepTypeOf = StepNone, Onfailure = False\<rparr>)"

text \<open>
  Lines 434-608: the steps of the task up to the cache upload, in the order in which they
  are appended.
\<close>

definition testingSteps ::
  "TestModule \<Rightarrow> TestingInfo \<Rightarrow> string \<Rightarrow> JobProperties \<Rightarrow> StepTask list" where
  "testingSteps testing testingInfo taskName props =
     [\<lparr>StepName = TestName testing @ ''-'' @ ''tool-install'', StepJobName = taskName,
       StepTypeOf = StepTools, Onfailure = False\<rparr>]
     @ (if CacheEnable props \<and> MediumType (Cache props) = ObjectMedium then
          [\<lparr>StepName = TestName testing @ ''-'' @ ''download-archive'', StepJobName = taskName,
            StepTypeOf = StepDownloadArchive, Onfailure = False\<rparr>]
        else [])
     @ [\<lparr>StepName = TestName testing @ ''-git'', StepJobName = taskName,
         StepTypeOf = StepGit, Onfailure = False\<rparr>,
        \<lparr>StepName = TestName testing @ ''-debug_before'', StepJobName = taskName,
         StepTypeOf = StepDebugBefore, Onfailure = False\<rparr>,
        scriptStep testing testingInfo taskName,
        \<lparr>StepName = TestName testing @ ''-debug_after'', StepJobName = taskName,
         StepTypeOf = StepDebugAfter, Onfailure = False\<rparr>]
     @ (if length (TestReportPath testingInfo) > 0 then
          [\<lparr>StepName = TestJobHTMLReportStepName, StepJobName = taskName,
            StepTypeOf = StepArchive, Onfailure = True\<rparr>]
        else [])
     @ (if length (ArtifactPaths testingInfo) > 0
           \<and> (length (ArtifactPaths testingInfo) > 1 \<or> hd (ArtifactPaths testingInfo) \<noteq> '''')
        then
          [\<lparr>StepName = TestJobArchiveResultStepName, StepJobName = taskName,
            StepTypeOf = StepTarArchive, Onfailure = True\<rparr>]
        else [])
     @ (if length (TestResultPath testingInfo) > 0 then
          [\<lparr>StepName = TestJobJunitReportStepName, StepJobName = taskName,
            StepTypeOf = StepJunitReport, Onfailure = True\<rparr>]
        else [])
     @ (if CacheEnable props \<and> MediumType (Cache props) = ObjectMedium then
          [\<lparr>StepName = TestName testing @ ''-'' @ ''tar-archive'', StepJobName = taskName,
            StepTypeOf = StepTarArchive, Onfailure = False\<rparr>]
        else [])"

text \<open>
  \<open>toJobtask\<close>, lines 332-638. The function returns a task and an error: \<open>Inr\<close> is the
  task returned with the error \<open>nil\<close>; \<open>Inl\<close> carries the error together with the task
  returned beside it, which is \<open>nil\<close> for the first three lookups and the task as built
  so far for the later ones.
\<close>

definition toJobtask ::
  "catalog \<Rightarrow> WorkflowV4 \<Rightarrow> Job \<Rightarrow> TestModule \<Rightarrow> S3Storage \<Rightarrow> int \<Rightarrow> string \<Rightarrow> string \<Rightarrow> string
     \<Rightarrow> (JobTask option \<times> error) + JobTask" where
  "toJobtask cat workflow job testing defaultS3 taskID testType serviceName serviceModule =
     (case TestingColl_Find cat (TestName testing) of
        Inl err \<Rightarrow> Inl (None, Wrap (''find testing: '' @ TestName testing @ '' error'') err)
      | Inr testingInfo \<Rightarrow>
     (case BasicImageColl_Find cat (ImageID (PreTestOf testingInfo)) of
        Inl err \<Rightarrow>
          Inl (None, Wrap (''find basic image: '' @ ImageID (PreTestOf testingInfo)
                             @ '' error'') err)
      | Inr basicImage \<Rightarrow>
     (case ListRegistryNamespaces cat of
        Inl err \<Rightarrow> Inl (None, Wrap ''list registries error'' err)
      | Inr registries \<Rightarrow>
     (let randStr = randString cat;
          jobName =
            (if testType = ServiceTestType
             then jobNameFormat cat (serviceName @ ''-'' @ serviceModule @ ''-'' @ Name job)
             else jobNameFormat cat (TestName testing @ ''-'' @ Name job @ ''-'' @ randStr));
          jobInfo =
            (if testType = ServiceTestType
             then [(JobNameKey, Name job), (''test_type'', testType),
                   (''service_name'', serviceName), (''service_module'', serviceModule)]
             else [(JobNameKey, Name job), (''test_type'', testType),
                   (''testing_name'', TestName testing), (''rand_str'', randStr)]);
          jobKey =
            (if testType = ServiceTestType
             then joinDot [Name job, TestName testing, serviceName, serviceModule]
             else joinDot [Name job, TestName testing]);
          props0 = \<lparr>Timeout = Timeout_info testingInfo,
                    CustomEnvs = renderKeyVals cat (KeyVals testing)
                                   (Envs_pre (PreTestOf testingInfo)),
                    Envs = [],
                    ClusterID = ClusterID_pre (PreTestOf testingInfo),
                    BuildOS = Value_img basicImage,
                    Registries = registries,
                    CacheEnable = False,
                    CacheDirType = '''',
                    CacheUserDir = '''',
                    Cache = \<lparr>MediumType = '''', ObjectID = '''', NFSSubpath = ''''\<rparr>\<rparr>;
          jobTask = \<lparr>TaskName = jobName, TaskKey = jobKey, JobInfo = jobInfo,
                     TaskJobType = JobZadigTesting,
                     TaskTimeout = Timeout_info testingInfo,
                     Outputs = Outputs_info testingInfo,
                     Infrastructure = Infrastructure_info testingInfo,
                     Properties = props0, Steps = []\<rparr>
      in case K8SClusterColl_Get cat (ClusterID_pre (PreTestOf testingInfo)) of
           Inl err \<Rightarrow>
             Inl (Some jobTask,
                  Wrap (''failed to find cluster: '' @ ClusterID_pre (PreTestOf testingInfo)
                          @ '', error'') err)
         | Inr clusterInfo \<Rightarrow>
     (case cacheProperties cat testingInfo clusterInfo (Infrastructure jobTask) props0 of
        (props1, Inl err) \<Rightarrow> Inl (Some (jobTask\<lparr>Properties := props1\<rparr>), err)
      | (props1, Inr cacheS3) \<Rightarrow>
     (let props2 = props1\<lparr>Envs := CustomEnvs props1
                       @ getTestingJobVariables cat (Repos testing) taskID (Project workflow)
                           (WorkflowName workflow) (DisplayName workflow) (ProjectName testing)
                           (TestName testing) testType serviceName serviceModule
                           (Infrastructure jobTask)\<rparr>;
          jobTask1 = jobTask\<lparr>Properties := props2,
                              Steps := testingSteps testing testingInfo jobName props2\<rparr>
      in case PostTestOf testingInfo of
           None \<Rightarrow> Inr jobTask1
         | Some postTest \<Rightarrow>
             (case ObjectStorageUploadOf postTest of
                None \<Rightarrow> Inr jobTask1
              | Some upload \<Rightarrow>
                  (if Enabled upload then
                     (case S3StorageColl_Find cat (ObjectStorageID upload) of
                        Inl err \<Rightarrow>
                          Inl (Some jobTask1,
                               Wrap (''find object storage: '' @ ObjectStorageID upload
                                       @ '' failed, err'') err)
                      | Inr modelS3 \<Rightarrow>
                          Inr (jobTask1\<lparr>Steps := Steps jobTask1
                                 @ [\<lparr>StepName = TestJobObjectStorageStepName,
                                     StepJobName = jobName, StepTypeOf = StepArchive,
                                     Onfailure = False\<rparr>]\<rparr>))
                   else Inr jobTask1))))))))"

subsection \<open>ToJobs\<close>

text \<open>
  The loop of lines 229-235 over the test modules of a product-level job: the first task
  that fails ends \<open>ToJobs\<close> with the tasks compiled so far and the error.
\<close>

fun testModuleTasks ::
  "(TestModule \<Rightarrow> (JobTask option \<times> error) + JobTask) \<Rightarrow> TestModule list \<Rightarrow> JobTask list
     \<Rightarrow> JobTask list \<times> error option" where
  "testModuleTasks compile [] resp = (resp, None)"
| "testModuleTasks compile (testing # rest) resp =
     (case compile testing of
        Inl (partial, err) \<Rightarrow> (resp, Some err)
      | Inr jobTask \<Rightarrow> testModuleTasks compile rest (resp @ [jobTask]))"

text \<open>The inner loop of lines 254-263 over the service-and-test entries, for one target.\<close>

fun targetTasks ::
  "(ServiceAndTest \<Rightarrow> (JobTask option \<times> error) + JobTask) \<Rightarrow> ServiceTestTarget
     \<Rightarrow> ServiceAndTest list \<Rightarrow> JobTask list \<Rightarrow> JobTask list \<times> error option" where
  "targetTasks compile target [] resp = (resp, None)"
| "targetTasks compile target (testing # rest) resp =
     (if ServiceName_sat testing \<noteq> ServiceName_tgt target
         \<or> ServiceModule_sat testing \<noteq> ServiceModule_tgt target
      then targetTasks compile target rest resp
      else (case compile testing of
              Inl (partial, err) \<Rightarrow> (resp, Some err)
            | Inr jobTask \<Rightarrow> targetTasks compile target rest (resp @ [jobTask])))"

text \<open>The outer loop of lines 253-264 over the targets.\<close>

fun serviceTestTasks ::
  "(ServiceAndTest \<Rightarrow> (JobTask option \<times> error) + JobTask) \<Rightarrow> ServiceTestTarget list
     \<Rightarrow> ServiceAndTest list \<Rightarrow> JobTask list \<Rightarrow> JobTask list \<times> error option" where
  "serviceTestTasks compile [] tests resp = (resp, None)"
| "serviceTestTasks compile (target # targets) tests resp =
     (case targetTasks compile target tests resp of
        (resp', Some err) \<Rightarrow> (resp', Some err)
      | (resp', None) \<Rightarrow> serviceTestTasks compile targets tests resp')"

text \<open>
  \<open>ToJobs\<close>, lines 213-269: the tasks and the error that it returns. The typed spec that
  it stores back into the job is not part of the result.
\<close>

definition ToJobs :: "catalog \<Rightarrow> WorkflowV4 \<Rightarrow> Job \<Rightarrow> int \<Rightarrow> JobTask list \<times> error option" where
  "ToJobs cat workflow job taskID =
     (case IToi_testing cat (Spec job) of
        Inl err \<Rightarrow> ([], Some err)
      | Inr spec \<Rightarrow>
     (case S3StorageColl_FindDefault cat of
        Inl err \<Rightarrow> ([], Some (Wrap ''failed to find default s3 storage, error'' err))
      | Inr defaultS3 \<Rightarrow>
     (case (if TestType spec = ProductTestType
            then testModuleTasks
                   (\<lambda>testing. toJobtask cat workflow job testing defaultS3 taskID '''' '''' '''')
                   (TestModules spec) []
            else ([], None)) of
        (resp, Some err) \<Rightarrow> (resp, Some err)
      | (resp, None) \<Rightarrow>
     (case (if Source spec = SourceFromJob then
              (let jobName = (if OriginJobName spec \<noteq> '''' then OriginJobName spec
                              else JobName spec)
               in case getOriginReferedJobTargets cat workflow jobName of
                    Inl err \<Rightarrow>
                      Inl (Wrap (''get origin refered job: '' @ jobName
                                   @ '' targets failed, err'') err)
                  | Inr targets \<Rightarrow> Inr targets)
            else Inr (TargetServices spec)) of
        Inl err \<Rightarrow> (resp, Some err)
      | Inr targets \<Rightarrow>
          (if TestType spec = ServiceTestType
           then serviceTestTasks
                  (\<lambda>testing. toJobtask cat workflow job (TestModule_sat testing) defaultS3 taskID
                                (TestType spec) (ServiceName_sat testing)
                                (ServiceModule_sat testing))
                  targets (ServiceAndTests spec) resp
           else (resp, None))))))"

subsection \<open>Lint and outputs\<close>

text \<open>
  Modelled from the spec: \<open>getJobRankMap\<close> (package job, not among the sources). The
  spec computes each job's rank as (stage index, job index); ranks are compared stage
  first, then position. A job name that occurs twice keeps the rank assigned last, as a
  Go map assignment does, and a name that does not occur reads as the zero rank.
\<close>

type_synonym rank = "nat \<times> nat"

definition rankEntries :: "WorkflowStage list \<Rightarrow> (string \<times> rank) list" where
  "rankEntries stages =
     concat (map (\<lambda>(i, stage). map (\<lambda>(k, job). (Name job, (i, k))) (enumerate 0 (Jobs stage)))
               (enumerate 0 stages))"

definition getJobRankMap :: "WorkflowStage list \<Rightarrow> (string \<rightharpoonup> rank)" where
  "getJobRankMap stages = map_of (rev (rankEntries stages))"

fun rankLess :: "rank \<Rightarrow> rank \<Rightarrow> bool" where
  "rankLess (i, k) (i', k') = (i < i' \<or> (i = i' \<and> k < k'))"

definition rankGreaterEq :: "rank \<Rightarrow> rank \<Rightarrow> bool" where
  "rankGreaterEq a b = (\<not> rankLess a b)"

definition rankOf :: "(string \<rightharpoonup> rank) \<Rightarrow> string \<Rightarrow> rank" where
  "rankOf jobRankMap name = (case jobRankMap name of None \<Rightarrow> (0, 0) | Some r \<Rightarrow> r)"

text \<open>\<open>LintJob\<close>, lines 640-654.\<close>

definition LintJob :: "catalog \<Rightarrow> WorkflowV4 \<Rightarrow> Job \<Rightarrow> error option" where
  "LintJob cat workflow job =
     (case IToiYaml_testing cat (Spec job) of
        Inl err \<Rightarrow> Some err
      | Inr spec \<Rightarrow>
          (if Source spec \<noteq> SourceFromJob then None
           else (let jobRankMap = getJobRankMap (Stages workflow)
                 in case jobRankMap (JobName spec) of
                      None \<Rightarrow>
                        Some (Err (''can not quote job '' @ JobName spec @ '' in job ''
                                     @ Name job))
                    | Some buildJobRank \<Rightarrow>
                        (if rankGreaterEq buildJobRank (rankOf jobRankMap (Name job))
                         then Some (Err (''can not quote job '' @ JobName spec @ '' in job ''
                                           @ Name job))
                         else None))))"

text \<open>
  Lines 672-682 of \<open>GetOutPuts\<close>: the key under which the outputs of one catalog entry
  are addressed. For a service-level job every matching pair of a target and a
  service-and-test entry assigns the key again.
\<close>

definition outputJobKey :: "Job \<Rightarrow> ZadigTestingJobSpec \<Rightarrow> TestingInfo \<Rightarrow> string" where
  "outputJobKey job spec testingInfo =
     (let jobKey = joinDot [Name job, Name_info testingInfo]
      in if TestType spec = ServiceTestType then
           foldl (\<lambda>jobKey target.
              foldl (\<lambda>jobKey scanning.
                 if ServiceName_sat scanning \<noteq> ServiceName_tgt target
                    \<or> ServiceModule_sat scanning \<noteq> ServiceModule_tgt target
                 then jobKey
                 else joinDot [Name job, TestName (TestModule_sat scanning),
                               ServiceName_tgt target, ServiceModule_tgt target])
                jobKey (ServiceAndTests spec))
             jobKey (TargetServices spec)
         else jobKey)"

text \<open>\<open>GetOutPuts\<close>, lines 656-686.\<close>

definition GetOutPuts :: "catalog \<Rightarrow> Job \<Rightarrow> string list" where
  "GetOutPuts cat job =
     (case IToiYaml_testing cat (Spec job) of
        Inl err \<Rightarrow> []
      | Inr spec \<Rightarrow>
          (case TestingColl_List cat (map TestName (TestModules spec)) of
             Inl err \<Rightarrow> []
           | Inr testingInfos \<Rightarrow>
               concat (map (\<lambda>testingInfo.
                         getOutputKey cat (outputJobKey job spec testingInfo)
                           (Outputs_info testingInfo))
                       testingInfos)))"

subsection \<open>Vocabulary of the properties of the job compiler\<close>

text \<open>The job types from which the cross-job target resolver reads targets.\<close>

definition resolvableJobType :: "string \<Rightarrow> bool" where
  "resolvableJobType t =
     (t = JobZadigBuild \<or> t = JobZadigDistributeImage \<or> t = JobZadigDeploy
      \<or> t = JobZadigScanning)"

text \<open>All jobs of a workflow in declaration order: stage by stage, job by job.\<close>

definition jobsInOrder :: "WorkflowV4 \<Rightarrow> Job list" where
  "jobsInOrder workflow = concat (map Jobs (Stages workflow))"

definition isError :: "error option \<Rightarrow> bool" where
  "isError r = (r \<noteq> None)"

subsection \<open>Example values of the job compiler\<close>

text \<open>
  A catalog with the two suites \<open>t1\<close> and \<open>t2\<close>, each with one repository and one
  variable of its own, one cluster that declares no cache medium, decoders that accept
  the payload of their own kind, and merge helpers that append what the catalog
  declares to what the job declares.
\<close>

definition exampleTesting :: "string \<Rightarrow> string \<Rightarrow> TestingInfo" where
  "exampleTesting name out =
     \<lparr>Name_info = name, Timeout_info = 60, Outputs_info = [\<lparr>OutputName = out\<rparr>],
      Infrastructure_info = ''kubernetes'', CacheEnable_info = True,
      CacheDirType_info = ''workspace'', CacheUserDir_info = '''',
      Repos_info = [\<lparr>RepoOwner = ''koderover'', RepoName = name, Branch = ''main''\<rparr>],
      ScriptType = '''', TestReportPath = '''', ArtifactPaths = [], TestResultPath = '''',
      PreTestOf = \<lparr>ImageID = ''img'',
                   Envs_pre = [\<lparr>Key = ''LEVEL'', Value = ''1'', IsCredential = False\<rparr>],
                   ClusterID_pre = ''c1'', Installs = []\<rparr>,
      PostTestOf = None\<rparr>"

definition exampleCatalog :: catalog where
  "exampleCatalog =
     \<lparr>IToi_testing = (\<lambda>s. case s of TestingSpec t \<Rightarrow> Inr t | _ \<Rightarrow> Inl (Err ''decode'')),
      IToiYaml_testing = (\<lambda>s. case s of TestingSpec t \<Rightarrow> Inr t | _ \<Rightarrow> Inl (Err ''decode'')),
      IToi_build = (\<lambda>s. case s of BuildSpec t \<Rightarrow> Inr t | _ \<Rightarrow> Inl (Err ''decode'')),
      IToi_distribute = (\<lambda>s. case s of DistributeSpec t \<Rightarrow> Inr t | _ \<Rightarrow> Inl (Err ''decode'')),
      IToi_deploy = (\<lambda>s. case s of DeploySpec t \<Rightarrow> Inr t | _ \<Rightarrow> Inl (Err ''decode'')),
      IToi_scanning = (\<lambda>s. case s of ScanningSpec t \<Rightarrow> Inr t | _ \<Rightarrow> Inl (Err ''decode'')),
      TestingColl_Find =
        (\<lambda>name. if name = ''t1'' then Inr (exampleTesting ''t1'' ''o1'')
                 else if name = ''t2'' then Inr (exampleTesting ''t2'' ''o2'')
                 else Inl (Err ''no documents in result'')),
      TestingColl_List =
        (\<lambda>names. Inr (filter (\<lambda>info. Name_info info \<in> set names)
                         [exampleTesting ''t1'' ''o1'', exampleTesting ''t2'' ''o2''])),
      BasicImageColl_Find = (\<lambda>imageID. Inr \<lparr>Value_img = ''focal''\<rparr>),
      ListRegistryNamespaces = Inr [],
      K8SClusterColl_Get =
        (\<lambda>clusterID. Inr \<lparr>Cache_cluster =
                              \<lparr>MediumType = '''', ObjectID = '''', NFSSubpath = ''''\<rparr>\<rparr>),
      S3StorageColl_Find = (\<lambda>storageID. Inr \<lparr>S3ID = storageID\<rparr>),
      S3StorageColl_FindDefault = Inr \<lparr>S3ID = ''default''\<rparr>,
      mergeRepos = (\<lambda>templateRepos customRepos. customRepos @ templateRepos),
      renderKeyVals = (\<lambda>input origin. input @ origin),
      renderEnv = (\<lambda>s envs. s),
      jobNameFormat = (\<lambda>s. s),
      randString = ''abcde'',
      getOutputKey = (\<lambda>jobKey outputs. map (\<lambda>output. jobKey @ ''.'' @ OutputName output) outputs),
      getOriginJobName = (\<lambda>workflow jobName. jobName),
      PrepareDefaultWorkflowTaskEnvs =
        (\<lambda>project workflowName workflowDisplayName infrastructure taskID. []),
      getReposVariables = (\<lambda>repos. []),
      SystemAddress = ''http://zadig'',
      QueryEscape = (\<lambda>s. s),
      showInt = (\<lambda>n. ''1'')\<rparr>"

definition exampleModule :: "string \<Rightarrow> TestModule" where
  "exampleModule name = \<lparr>TestName = name, ProjectName = ''p'', KeyVals = [], Repos = []\<rparr>"

text \<open>A product-level testing spec that runs the suites named.\<close>

definition productSpec :: "string list \<Rightarrow> ZadigTestingJobSpec" where
  "productSpec names =
     \<lparr>TestType = ProductTestType, Source = ''runtime'', JobName = '''', OriginJobName = '''',
      TargetServices = [], TestModules = map exampleModule names, ServiceAndTests = []\<rparr>"

text \<open>
  A service-level testing spec: suite \<open>t1\<close> tests (svcA, modA), suite \<open>t2\<close> tests
  (svcB, modB), and both services are targets.
\<close>

definition serviceSpec :: ZadigTestingJobSpec where
  "serviceSpec =
     \<lparr>TestType = ServiceTestType, Source = ''runtime'', JobName = '''', OriginJobName = '''',
      TargetServices = [\<lparr>ServiceName_tgt = ''svcA'', ServiceModule_tgt = ''modA''\<rparr>,
                        \<lparr>ServiceName_tgt = ''svcB'', ServiceModule_tgt = ''modB''\<rparr>],
      TestModules = [exampleModule ''t1'', exampleModule ''t2''],
      ServiceAndTests =
        [\<lparr>ServiceName_sat = ''svcA'', ServiceModule_sat = ''modA'',
          TestModule_sat = exampleModule ''t1''\<rparr>,
         \<lparr>ServiceName_sat = ''svcB'', ServiceModule_sat = ''modB'',
          TestModule_sat = exampleModule ''t2''\<rparr>]\<rparr>"

text \<open>A testing spec that takes its targets from the job named.\<close>

definition fromJobSpec :: "string \<Rightarrow> ZadigTestingJobSpec" where
  "fromJobSpec ref = serviceSpec\<lparr>Source := SourceFromJob, JobName := ref, TargetServices := []\<rparr>"

text \<open>
  A testing spec that takes its targets from the job named and whose second
  service-and-test entry refers to the suite \<open>zz\<close>, which the catalog does not hold.
\<close>

definition missingSuiteSpec :: "string \<Rightarrow> ZadigTestingJobSpec" where
  "missingSuiteSpec ref =
     (fromJobSpec ref)
       \<lparr>ServiceAndTests :=
          [\<lparr>ServiceName_sat = ''svcA'', ServiceModule_sat = ''modA'',
            TestModule_sat = exampleModule ''t1''\<rparr>,
           \<lparr>ServiceName_sat = ''svcB'', ServiceModule_sat = ''modB'',
            TestModule_sat = exampleModule ''zz''\<rparr>]\<rparr>"

definition buildJob :: Job where
  "buildJob =
     \<lparr>Name = ''build1'', JobType = JobZadigBuild,
      Spec = BuildSpec \<lparr>ServiceAndBuilds =
               [\<lparr>ServiceName_bld = ''svcA'', ServiceModule_bld = ''modA''\<rparr>,
                \<lparr>ServiceName_bld = ''svcB'', ServiceModule_bld = ''modB''\<rparr>]\<rparr>\<rparr>"

definition testJob :: "string \<Rightarrow> ZadigTestingJobSpec \<Rightarrow> Job" where
  "testJob name spec = \<lparr>Name = name, JobType = JobZadigTesting, Spec = TestingSpec spec\<rparr>"

text \<open>
  A workflow of three stages: the build job, then a testing job that refers to the
  build job, then a testing job of its own.
\<close>

definition exampleWorkflow :: WorkflowV4 where
  "exampleWorkflow =
     \<lparr>WorkflowName = ''wf'', Project = ''p'', DisplayName = ''wf'',
      Stages = [\<lparr>Jobs = [buildJob]\<rparr>,
                \<lparr>Jobs = [testJob ''test1'' (fromJobSpec ''build1'')]\<rparr>,
                \<lparr>Jobs = [testJob ''test2'' (productSpec [''t1''])]\<rparr>]\<rparr>"

section \<open>Properties of the environment merge engine\<close>

subsection \<open>The rebuild loops in closed form\<close>

lemma map_filter_append:
  "List.map_filter f (xs @ ys) = List.map_filter f xs @ List.map_filter f ys"
  by (simp add: List.map_filter_def)

lemma setServicesInOrder_ok:
  "i < length acc \<Longrightarrow>
   setServicesInOrder m (int i) g acc = Inr (acc[i := acc ! i @ List.map_filter (map_of m) g])"
proof (induction g arbitrary: acc)
  case Nil
  then show ?case by (simp add: List.map_filter_simps)
next
  case (Cons svc g)
  show ?case
  proof (cases "map_of m svc")
    case None
    with Cons show ?thesis by (simp add: List.map_filter_simps)
  next
    case (Some s)
    with Cons show ?thesis by (simp add: List.map_filter_simps appendAt_def)
  qed
qed

lemma replayOrchestration_ok:
  "length acc = i \<Longrightarrow>
   replayOrchestration m i orch acc = Inr (acc @ map (List.map_filter (map_of m)) orch)"
proof (induction orch arbitrary: acc i)
  case Nil
  then show ?case by simp
next
  case (Cons g orch)
  have "setServicesInOrder m (int i) g (acc @ [[]]) = Inr (acc @ [List.map_filter (map_of m) g])"
    using Cons.prems setServicesInOrder_ok [of i "acc @ [[]]" m g]
    by (simp add: list_update_append nth_append)
  moreover have "length (acc @ [List.map_filter (map_of m) g]) = Suc i"
    using Cons.prems by simp
  ultimately show ?case
    using Cons.IH [of "acc @ [List.map_filter (map_of m) g]" "Suc i"] Cons.prems by simp
qed

lemma appendChartServices_ok:
  "acc \<noteq> [] \<Longrightarrow> appendChartServices ss acc = Inr (butlast acc @ [last acc @ ss])"
proof (induction ss arbitrary: acc)
  case Nil
  then show ?case by simp
next
  case (Cons s ss)
  have idx: "nat (int (length acc) - 1) = length acc - 1" by simp
  have "acc[length acc - 1 := acc ! (length acc - 1) @ [s]] = butlast acc @ [last acc @ [s]]"
    using Cons.prems
    by (metis append_butlast_last_id last_conv_nth length_butlast list_update_length)
  then have "appendAt acc (int (length acc) - 1) s = Inr (butlast acc @ [last acc @ [s]])"
    using Cons.prems by (simp add: appendAt_def idx)
  then show ?case using Cons.IH [of "butlast acc @ [last acc @ [s]]"] by simp
qed

lemma appendChartServices_panic: "appendChartServices (s # ss) [] = Inl (- 1)"
  by (simp add: appendAt_def)

lemma rebuildServices_nonempty:
  "orch \<noteq> [] \<Longrightarrow>
   rebuildServices w orch m c =
     Inr (butlast (map (List.map_filter (map_of m)) orch)
          @ [last (map (List.map_filter (map_of m)) orch) @ map snd (mapRange w c)])"
  by (simp add: rebuildServices_def replayOrchestration_ok appendChartServices_ok)

lemma rebuildServices_empty:
  "rebuildServices w [] m c = (if mapRange w c = [] then Inr [] else Inl (- 1))"
  by (cases "mapRange w c") (simp_all add: rebuildServices_def appendAt_def)

lemma foldl_native_append:
  "foldl (\<lambda>newGroup svc. case map_of m svc of None \<Rightarrow> newGroup | Some s \<Rightarrow> newGroup @ [s]) acc g
     = acc @ List.map_filter (map_of m) g"
  by (induction g arbitrary: acc) (auto simp: List.map_filter_simps split: option.splits)

lemma foldl_groups_append:
  "foldl (\<lambda>newGroup svcGroup.
      foldl (\<lambda>newGroup svc. case map_of m svc of None \<Rightarrow> newGroup | Some s \<Rightarrow> newGroup @ [s])
        newGroup svcGroup) acc orch
     = acc @ List.map_filter (map_of m) (concat orch)"
  by (induction orch arbitrary: acc)
     (simp_all add: foldl_native_append map_filter_append List.map_filter_simps)

lemma foldl_snoc: "foldl (\<lambda>newGroup service. newGroup @ [service]) acc ss = acc @ ss"
  by (induction ss arbitrary: acc) simp_all

lemma rebuildGroup_eq:
  "rebuildGroup w orch m c = List.map_filter (map_of m) (concat orch) @ map snd (mapRange w c)"
  unfolding rebuildGroup_def by (simp add: foldl_groups_append foldl_snoc)

subsection \<open>The index of the last group\<close>


lemma set_mapRange: "set (mapRange w m) = set m"
  by (simp add: mapRange_def)




subsection \<open>Entries of the two maps\<close>

lemma update_entry:
  "(k, v) \<in> set (AList.update k' v' al) \<Longrightarrow> (k, v) = (k', v') \<or> (k, v) \<in> set al"
  by (induction al) (auto split: if_splits)

lemma delete_entry: "(k, v) \<in> set (AList.delete k' al) \<Longrightarrow> (k, v) \<in> set al \<and> k \<noteq> k'"
  by (auto simp: AList.delete_eq)

lemma foldl_native_inv:
  "(\<And>k v. (k, v) \<in> set acc \<Longrightarrow> ServiceName v = k \<and> FromZadig v) \<Longrightarrow>
   (k, v) \<in> set (foldl (\<lambda>m svc. if FromZadig svc then AList.update (ServiceName svc) svc m else m) acc xs)
   \<Longrightarrow> ServiceName v = k \<and> FromZadig v"
proof (induction xs arbitrary: acc)
  case Nil then show ?case by simp
next
  case (Cons x xs)
  show ?case
  proof (rule Cons.IH [of "if FromZadig x then AList.update (ServiceName x) x acc else acc"])
    fix k' v' assume "(k', v') \<in> set (if FromZadig x then AList.update (ServiceName x) x acc else acc)"
    then show "ServiceName v' = k' \<and> FromZadig v'"
      using Cons.prems(1) by (auto split: if_splits dest!: update_entry)
  next
    show "(k, v) \<in> set (foldl (\<lambda>m svc. if FromZadig svc then AList.update (ServiceName svc) svc m else m)
        (if FromZadig x then AList.update (ServiceName x) x acc else acc) xs)"
      using Cons.prems(2) by simp
  qed
qed

lemma foldl_chart_inv:
  "(\<And>k v. (k, v) \<in> set acc \<Longrightarrow> ReleaseName v = k \<and> \<not> FromZadig v) \<Longrightarrow>
   (k, v) \<in> set (foldl (\<lambda>m svc. if \<not> FromZadig svc then AList.update (ReleaseName svc) svc m else m) acc xs)
   \<Longrightarrow> ReleaseName v = k \<and> \<not> FromZadig v"
proof (induction xs arbitrary: acc)
  case Nil then show ?case by simp
next
  case (Cons x xs)
  show ?case
  proof (rule Cons.IH [of "if \<not> FromZadig x then AList.update (ReleaseName x) x acc else acc"])
    fix k' v' assume "(k', v') \<in> set (if \<not> FromZadig x then AList.update (ReleaseName x) x acc else acc)"
    then show "ReleaseName v' = k' \<and> \<not> FromZadig v'"
      using Cons.prems(1) by (auto split: if_splits dest!: update_entry)
  next
    show "(k, v) \<in> set (foldl (\<lambda>m svc. if \<not> FromZadig svc then AList.update (ReleaseName svc) svc m else m)
        (if \<not> FromZadig x then AList.update (ReleaseName x) x acc else acc) xs)"
      using Cons.prems(2) by simp
  qed
qed

lemma GetServiceMap_entry:
  "(k, v) \<in> set (GetServiceMap groups) \<Longrightarrow> ServiceName v = k \<and> FromZadig v"
  unfolding GetServiceMap_def by (rule foldl_native_inv [of "[]"]) simp_all

lemma GetChartServiceMap_entry:
  "(k, v) \<in> set (GetChartServiceMap groups) \<Longrightarrow> ReleaseName v = k \<and> \<not> FromZadig v"
  unfolding GetChartServiceMap_def by (rule foldl_chart_inv [of "[]"]) simp_all

lemma foldl_update_distinct:
  "distinct (map fst acc) \<Longrightarrow>
   distinct (map fst (foldl (\<lambda>m x. if P x then AList.update (f x) x m else m) acc xs))"
  by (induction xs arbitrary: acc) (simp_all add: distinct_update)

lemma GetServiceMap_distinct: "distinct (map fst (GetServiceMap groups))"
  unfolding GetServiceMap_def by (rule foldl_update_distinct) simp

lemma delete_member: "kv \<in> set (AList.delete k al) \<Longrightarrow> kv \<in> set al \<and> fst kv \<noteq> k"
  by (auto simp: AList.delete_eq)

lemma two_members_length:
  assumes "x \<in> set xs" "y \<in> set xs" "x \<noteq> y"
  shows "2 \<le> length xs"
proof -
  have "card {x, y} \<le> card (set xs)"
    using assms by (intro card_mono) auto
  also have "card (set xs) \<le> length xs" by (rule card_length)
  finally show ?thesis using assms(3) by simp
qed

lemma updateServiceMaps_native_entry:
  assumes "\<And>k v. (k, v) \<in> set m \<Longrightarrow> ServiceName v = k \<and> FromZadig v"
    and "(k, v) \<in> set (fst (updateServiceMaps w productSvc m c))"
  shows "ServiceName v = k"
  using assms
  by (auto simp: updateServiceMaps_def split: if_splits option.splits
        dest!: update_entry delete_entry)

lemma updateServiceMaps_chart_entry:
  assumes "\<And>k v. (k, v) \<in> set c \<Longrightarrow> ReleaseName v = k \<and> \<not> FromZadig v"
    and "(k, v) \<in> set (snd (updateServiceMaps w productSvc m c))"
  shows "\<not> FromZadig v"
  using assms
  by (auto simp: updateServiceMaps_def FromZadig_def split: if_splits option.splits
        dest!: update_entry delete_entry)

subsection \<open>Members of the rebuilt list\<close>

lemma rebuildServices_members:
  assumes "rebuildServices w orch m c = Inr newServices"
    and "svc \<in> set (concat newServices)"
  shows "(\<exists>k \<in> set (concat orch). map_of m k = Some svc) \<or> svc \<in> snd ` set c"
proof (cases "orch = []")
  case True
  with assms show ?thesis
    by (auto simp: rebuildServices_empty split: if_splits)
next
  case False
  let ?G = "map (List.map_filter (map_of m)) orch"
  have G: "?G \<noteq> []" using False by simp
  have "newServices = butlast ?G @ [last ?G @ map snd (mapRange w c)]"
    using assms(1) False by (simp add: rebuildServices_nonempty)
  then have "set (concat newServices) = set (concat (butlast ?G @ [last ?G])) \<union> snd ` set (mapRange w c)"
    by auto
  also have "butlast ?G @ [last ?G] = ?G" using G by (rule append_butlast_last_id)
  finally have "svc \<in> set (concat ?G) \<or> svc \<in> snd ` set c"
    using assms(2) by (simp add: set_mapRange)
  moreover have "svc \<in> set (concat ?G) \<Longrightarrow> \<exists>k \<in> set (concat orch). map_of m k = Some svc"
    by (auto simp: List.map_filter_def) blast
  ultimately show ?thesis by blast
qed

lemma rebuildGroup_members:
  assumes "svc \<in> set (rebuildGroup w orch m c)"
  shows "(\<exists>k \<in> set (concat orch). map_of m k = Some svc) \<or> svc \<in> snd ` set c"
proof -
  have "svc \<in> set (List.map_filter (map_of m) (concat orch)) \<or> svc \<in> snd ` set c"
    using assms by (auto simp: rebuildGroup_eq set_mapRange)
  moreover have "svc \<in> set (List.map_filter (map_of m) (concat orch))
      \<Longrightarrow> \<exists>k \<in> set (concat orch). map_of m k = Some svc"
    by (auto simp: List.map_filter_def) blast
  ultimately show ?thesis by blast
qed

lemma committed_UpdateHelmAllServicesInEnv:
  assumes "svc \<in> set (committedServices (UpdateHelmAllServicesInEnv w productName envName services production))"
  shows "\<exists>tp newServices. TemplateFind w productName = Inr tp
           \<and> rebuildServices w (if production then ProductionServices tp else TemplateServices tp)
                (GetServiceMap (LintServices w services)) (GetChartServiceMap (LintServices w services))
               = Inr newServices
           \<and> svc \<in> set (concat newServices)"
  using assms
  by (auto simp: committedServices_def UpdateHelmAllServicesInEnv_def withSession_def emit_def
        withLock_def commitTransaction_def Let_def split: option.splits sum.splits if_splits)

lemma committed_UpdateHelmServicesGroupInEnv:
  assumes "svc \<in> set (committedServices (UpdateHelmServicesGroupInEnv w productName envName index grp production))"
  shows "\<exists>tp. TemplateFind w productName = Inr tp
           \<and> svc \<in> set (rebuildGroup w (if production then ProductionServices tp else TemplateServices tp)
                (GetServiceMap (LintServices w [grp])) (GetChartServiceMap (LintServices w [grp])))"
  using assms
  by (auto simp: committedServices_def UpdateHelmServicesGroupInEnv_def withSession_def emit_def
        withLock_def commitTransaction_def Let_def split: option.splits sum.splits if_splits)

lemma committed_UpdateHelmServiceInEnv:
  assumes "svc \<in> set (committedServices (UpdateHelmServiceInEnv w product productSvc user))"
  shows "\<exists>tp info newServices. TemplateFind w (ProductName product) = Inr tp
           \<and> ProductFind w (ProductName product) (EnvName product) = Inr info
           \<and> rebuildServices w (if Production product then ProductionServices tp else TemplateServices tp)
                (fst (updateServiceMaps w productSvc (GetServiceMap (LintServices w (Services info)))
                        (GetChartServiceMap (LintServices w (Services info)))))
                (snd (updateServiceMaps w productSvc (GetServiceMap (LintServices w (Services info)))
                        (GetChartServiceMap (LintServices w (Services info)))))
               = Inr newServices
           \<and> svc \<in> set (concat newServices)"
  using assms
  by (auto simp: committedServices_def UpdateHelmServiceInEnv_def withSession_def emit_def
        withLock_def commitTransaction_def Let_def split: option.splits sum.splits if_splits)

lemma native_member_in_template:
  assumes mem: "(\<exists>k \<in> set (concat orch). map_of m k = Some svc) \<or> svc \<in> snd ` set c"
    and m: "\<And>k v. (k, v) \<in> set m \<Longrightarrow> ServiceName v = k"
    and c: "\<And>k v. (k, v) \<in> set c \<Longrightarrow> \<not> FromZadig v"
    and nat: "FromZadig svc"
  shows "ServiceName svc \<in> set (concat orch)"
proof -
  from mem c nat obtain k where k: "k \<in> set (concat orch)" "map_of m k = Some svc"
    by fastforce
  from k(2) have "(k, svc) \<in> set m" by (rule map_of_SomeD)
  with m have "ServiceName svc = k" by blast
  with k(1) show ?thesis by simp
qed

subsection \<open>Evaluating the examples\<close>

lemmas helm_defs = withSession_def emit_def withLock_def commitTransaction_def Let_def
  exampleWorld_def exampleEnv_def exampleTemplate_def nativeSvc_def chartSvc_def
  envLockKey_def UpdateHelmEnvLockKey_def rebuildServices_def GetServiceMap_def mapRange_def
  GetChartServiceMap_def FromZadig_def appendAt_def updateServiceMaps_def
  updateDeployStrategy_def ServiceDeployStrategyDeploy_def ServiceDeployStrategyImport_def

text \<open>
  The example of the spec: with the template \<open>[[a, b], [c]]\<close>, an update that replaces
  the native service \<open>b\<close> and one imported release \<open>r\<close>, the document written is
  \<open>[[a, b'], [c, r]]\<close>, where \<open>b'\<close> is the update stamped with the current time.
\<close>

lemma reconcile_example:
  "UpdateHelmServiceInEnv exampleWorld exampleEnv (nativeSvc ''b'' ''rb2'') ''user''
     = ([SessionStart, EvStartTransaction, EvCreateEnvServiceVersion,
         EvLock ''UpdateHelmEnv:p:dev'', EvFindProduct ''p'' ''dev'', EvFindTemplate ''p'',
         EvUpdate (exampleEnv
           \<lparr>Services := [[nativeSvc ''a'' ''ra'', (nativeSvc ''b'' ''rb2'')\<lparr>UpdateTime := 1700000000\<rparr>],
                         [nativeSvc ''c'' ''rc'', chartSvc ''r'']],
            ServiceDeployStrategy := [(''b'', ''deploy'')]\<rparr>),
         EvCommitTransaction, EvUnlock ''UpdateHelmEnv:p:dev'', SessionEnd], ReturnNil)"
  by (simp add: UpdateHelmServiceInEnv_def helm_defs)

subsection \<open>Lock and transaction\<close>



subsection \<open>Replaying the template\<close>

text \<open>
  Claim C2. The rebuilt list has one group per template group, group \<open>i\<close> holding the
  services of the native map named by template group \<open>i\<close> in template order, and the
  chart services are appended to the last group (\<open>rebuildServices_nonempty\<close>,
  \<open>reconcile_example\<close>). This holds for an orchestration with at least one group only.
  With the empty orchestration (here the production orchestration of the example
  template) and one imported release, \<open>UpdateHelmAllServicesInEnv\<close> writes nothing: it
  panics with \<open>index out of range [-1]\<close> after the template was read, and the imported
  release is appended to no group.
\<close>

theorem UpdateHelmAllServicesInEnv_empty_orchestration:
  "UpdateHelmAllServicesInEnv exampleWorld ''p'' ''dev'' [[chartSvc ''r'']] True
     = ([SessionStart, EvStartTransaction, EvLock ''UpdateHelmEnv:p:dev'', EvFindTemplate ''p'',
         EvUnlock ''UpdateHelmEnv:p:dev'', SessionEnd], IndexPanic (- 1))"
  by (simp add: UpdateHelmAllServicesInEnv_def helm_defs)

subsection \<open>One key per service\<close>

text \<open>
  Claim C3, as stated, fails for an imported release: the loop over the native map stops
  at the first service with the release name. When the native services \<open>a\<close> and \<open>b\<close>
  both carry the release name \<open>r\<close>, updating the imported release \<open>r\<close> deletes \<open>a\<close> and
  leaves \<open>b\<close> in the native map.
\<close>

theorem updateServiceMaps_exclusive_counterexample:
  "\<not> FromZadig (chartSvc ''r'')
   \<and> fst (updateServiceMaps exampleWorld (chartSvc ''r'')
               (GetServiceMap [[nativeSvc ''a'' ''r'', nativeSvc ''b'' ''r'']])
               (GetChartServiceMap [[nativeSvc ''a'' ''r'', nativeSvc ''b'' ''r'']]))
       = [(''b'', nativeSvc ''b'' ''r'')]
   \<and> \<not> list_all (\<lambda>kv. ReleaseName (snd kv) \<noteq> ReleaseName (chartSvc ''r''))
          (fst (updateServiceMaps exampleWorld (chartSvc ''r'')
               (GetServiceMap [[nativeSvc ''a'' ''r'', nativeSvc ''b'' ''r'']])
               (GetChartServiceMap [[nativeSvc ''a'' ''r'', nativeSvc ''b'' ''r'']])))"
  by (simp add: updateServiceMaps_def GetServiceMap_def GetChartServiceMap_def FromZadig_def
        nativeSvc_def chartSvc_def mapRange_def exampleWorld_def)

lemma updateServiceMaps_none_remains:
  "(FromZadig productSvc \<longrightarrow>
      map_of (snd (updateServiceMaps w productSvc (GetServiceMap groups) (GetChartServiceMap groups)))
        (ReleaseName productSvc) = None
      \<and> list_all (\<lambda>kv. ReleaseName (snd kv) \<noteq> ReleaseName productSvc)
          (snd (updateServiceMaps w productSvc (GetServiceMap groups) (GetChartServiceMap groups))))
   \<and> (\<not> FromZadig productSvc
        \<and> length (filter (\<lambda>kv. ReleaseName (snd kv) = ReleaseName productSvc) (GetServiceMap groups)) \<le> 1
      \<longrightarrow> list_all (\<lambda>kv. ReleaseName (snd kv) \<noteq> ReleaseName productSvc)
            (fst (updateServiceMaps w productSvc (GetServiceMap groups) (GetChartServiceMap groups))))"
proof (intro conjI impI)
  assume "FromZadig productSvc"
  then show "map_of (snd (updateServiceMaps w productSvc (GetServiceMap groups) (GetChartServiceMap groups)))
        (ReleaseName productSvc) = None"
    by (simp add: updateServiceMaps_def delete_conv')
next
  assume nat: "FromZadig productSvc"
  show "list_all (\<lambda>kv. ReleaseName (snd kv) \<noteq> ReleaseName productSvc)
          (snd (updateServiceMaps w productSvc (GetServiceMap groups) (GetChartServiceMap groups)))"
    unfolding list_all_iff
  proof
    fix kv
    assume "kv \<in> set (snd (updateServiceMaps w productSvc (GetServiceMap groups) (GetChartServiceMap groups)))"
    then have "kv \<in> set (AList.delete (ReleaseName productSvc) (GetChartServiceMap groups))"
      using nat by (simp add: updateServiceMaps_def)
    then have "(fst kv, snd kv) \<in> set (GetChartServiceMap groups)" "fst kv \<noteq> ReleaseName productSvc"
      by (auto dest: delete_member)
    then show "ReleaseName (snd kv) \<noteq> ReleaseName productSvc"
      using GetChartServiceMap_entry [of "fst kv" "snd kv" groups] by simp
  qed
next
  let ?r = "ReleaseName productSvc"
  let ?m = "GetServiceMap groups"
  let ?P = "\<lambda>kv. ReleaseName (snd kv) = ?r"
  assume a: "\<not> FromZadig productSvc \<and> length (filter ?P ?m) \<le> 1"
  show "list_all (\<lambda>kv. ReleaseName (snd kv) \<noteq> ?r)
            (fst (updateServiceMaps w productSvc ?m (GetChartServiceMap groups)))"
  proof (cases "find ?P (mapRange w ?m)")
    case None
    then have "\<forall>kv \<in> set ?m. \<not> ?P kv"
      by (auto simp: find_None_iff set_mapRange)
    then show ?thesis using a None by (auto simp: updateServiceMaps_def list_all_iff)
  next
    case (Some kv)
    then have "kv \<in> set (mapRange w ?m)" "?P kv"
      by (auto simp: find_Some_iff)
    then have kv: "kv \<in> set ?m" "?P kv"
      by (simp_all add: set_mapRange)
    then have key: "ServiceName (snd kv) = fst kv"
      using GetServiceMap_entry [of "fst kv" "snd kv" groups] by simp
    have eq: "fst (updateServiceMaps w productSvc ?m (GetChartServiceMap groups))
                = AList.delete (fst kv) ?m"
      using a Some key by (simp add: updateServiceMaps_def)
    show ?thesis
      unfolding eq list_all_iff
    proof
      fix kv'
      assume "kv' \<in> set (AList.delete (fst kv) ?m)"
      then have kv': "kv' \<in> set ?m" "fst kv' \<noteq> fst kv"
        by (auto dest: delete_member)
      show "ReleaseName (snd kv') \<noteq> ?r"
      proof
        assume "ReleaseName (snd kv') = ?r"
        then have "kv' \<in> set (filter ?P ?m)" "kv \<in> set (filter ?P ?m)" "kv' \<noteq> kv"
          using kv kv' by auto
        then have "2 \<le> length (filter ?P ?m)" by (rule two_members_length)
        with a show False by simp
      qed
    qed
  qed
qed

lemma updateServiceMaps_native:
  assumes "FromZadig productSvc"
  shows "map_of (fst (updateServiceMaps w productSvc m c))
           = (map_of m)(ServiceName productSvc \<mapsto> productSvc\<lparr>UpdateTime := now w\<rparr>)"
    and "map_of (snd (updateServiceMaps w productSvc m c))
           = (map_of c)(ReleaseName productSvc := None)"
  using assms by (simp_all add: updateServiceMaps_def update_conv' delete_conv')

lemma updateServiceMaps_imported_chart:
  assumes "\<not> FromZadig productSvc"
  shows "map_of (snd (updateServiceMaps w productSvc m c))
           = (map_of c)(ReleaseName productSvc \<mapsto> productSvc\<lparr>UpdateTime := now w\<rparr>)"
  using assms by (simp add: updateServiceMaps_def update_conv')

lemma updateServiceMaps_imported_none:
  assumes "\<not> FromZadig productSvc"
    and "find (\<lambda>kv. ReleaseName (snd kv) = ReleaseName productSvc) (mapRange w m) = None"
  shows "fst (updateServiceMaps w productSvc m c) = m"
  using assms by (simp add: updateServiceMaps_def)

lemma updateServiceMaps_imported_first:
  assumes "\<not> FromZadig productSvc"
    and "find (\<lambda>kv. ReleaseName (snd kv) = ReleaseName productSvc)
           (mapRange w (GetServiceMap groups)) = Some kv"
  shows "map_of (GetServiceMap groups) (fst kv) = Some (snd kv)"
    and "map_of (fst (updateServiceMaps w productSvc (GetServiceMap groups) c))
           = (map_of (GetServiceMap groups))(fst kv := None)"
proof -
  have "kv \<in> set (mapRange w (GetServiceMap groups))"
    using assms(2) by (auto simp: find_Some_iff)
  then have mem: "(fst kv, snd kv) \<in> set (GetServiceMap groups)"
    by (simp add: set_mapRange)
  then show "map_of (GetServiceMap groups) (fst kv) = Some (snd kv)"
    using GetServiceMap_distinct by (rule map_of_is_SomeI [rotated])
  have "ServiceName (snd kv) = fst kv"
    using GetServiceMap_entry [OF mem] by simp
  then have "fst (updateServiceMaps w productSvc (GetServiceMap groups) c)
               = AList.delete (fst kv) (GetServiceMap groups)"
    using assms by (simp add: updateServiceMaps_def)
  then show "map_of (fst (updateServiceMaps w productSvc (GetServiceMap groups) c))
           = (map_of (GetServiceMap groups))(fst kv := None)"
    by (simp add: delete_conv')
qed

text \<open>
  Claim C3, amended. After lines 142-155, with the maps read from the environment: if the
  updated service is native, it is stored in the native map under its service name with
  the current time, the other native entries stay, and the chart map loses exactly the
  entry under its release name, so that no chart entry carries that release name. If it
  is an imported release, it is stored in the chart map under its release name with the
  current time and the other chart entries stay; when no native service carries its
  release name the native map is unchanged, and otherwise the first native entry with
  that release name in the order in which the map is visited is deleted and every other
  native entry stays. So no native entry with the release name remains provided at most
  one native service of the environment carried it.
\<close>

theorem updateServiceMaps_exclusive:
  "(FromZadig productSvc \<longrightarrow>
      map_of (fst (updateServiceMaps w productSvc (GetServiceMap groups) (GetChartServiceMap groups)))
        = (map_of (GetServiceMap groups))
            (ServiceName productSvc \<mapsto> productSvc\<lparr>UpdateTime := now w\<rparr>)
      \<and> map_of (snd (updateServiceMaps w productSvc (GetServiceMap groups) (GetChartServiceMap groups)))
        = (map_of (GetChartServiceMap groups))(ReleaseName productSvc := None)
      \<and> list_all (\<lambda>kv. ReleaseName (snd kv) \<noteq> ReleaseName productSvc)
          (snd (updateServiceMaps w productSvc (GetServiceMap groups) (GetChartServiceMap groups))))
   \<and> (\<not> FromZadig productSvc \<longrightarrow>
      map_of (snd (updateServiceMaps w productSvc (GetServiceMap groups) (GetChartServiceMap groups)))
        = (map_of (GetChartServiceMap groups))
            (ReleaseName productSvc \<mapsto> productSvc\<lparr>UpdateTime := now w\<rparr>)
      \<and> (find (\<lambda>kv. ReleaseName (snd kv) = ReleaseName productSvc) (mapRange w (GetServiceMap groups)) = None
           \<longrightarrow> fst (updateServiceMaps w productSvc (GetServiceMap groups) (GetChartServiceMap groups)) = GetServiceMap groups)
      \<and> (\<forall>kv. find (\<lambda>kv. ReleaseName (snd kv) = ReleaseName productSvc) (mapRange w (GetServiceMap groups)) = Some kv
           \<longrightarrow> map_of (GetServiceMap groups) (fst kv) = Some (snd kv)
               \<and> map_of (fst (updateServiceMaps w productSvc (GetServiceMap groups) (GetChartServiceMap groups)))
                   = (map_of (GetServiceMap groups))(fst kv := None)))
   \<and> (\<not> FromZadig productSvc
        \<and> length (filter (\<lambda>kv. ReleaseName (snd kv) = ReleaseName productSvc) (GetServiceMap groups)) \<le> 1
      \<longrightarrow> list_all (\<lambda>kv. ReleaseName (snd kv) \<noteq> ReleaseName productSvc)
            (fst (updateServiceMaps w productSvc (GetServiceMap groups) (GetChartServiceMap groups))))"
proof (intro conjI impI allI)
  assume "FromZadig productSvc"
  then show "map_of (fst (updateServiceMaps w productSvc (GetServiceMap groups) (GetChartServiceMap groups)))
        = (map_of (GetServiceMap groups))
            (ServiceName productSvc \<mapsto> productSvc\<lparr>UpdateTime := now w\<rparr>)"
    by (rule updateServiceMaps_native(1))
next
  assume "FromZadig productSvc"
  then show "map_of (snd (updateServiceMaps w productSvc (GetServiceMap groups) (GetChartServiceMap groups)))
        = (map_of (GetChartServiceMap groups))(ReleaseName productSvc := None)"
    by (rule updateServiceMaps_native(2))
next
  assume "FromZadig productSvc"
  then show "list_all (\<lambda>kv. ReleaseName (snd kv) \<noteq> ReleaseName productSvc)
          (snd (updateServiceMaps w productSvc (GetServiceMap groups) (GetChartServiceMap groups)))"
    using updateServiceMaps_none_remains [of productSvc w groups] by blast
next
  assume "\<not> FromZadig productSvc"
  then show "map_of (snd (updateServiceMaps w productSvc (GetServiceMap groups) (GetChartServiceMap groups)))
        = (map_of (GetChartServiceMap groups))
            (ReleaseName productSvc \<mapsto> productSvc\<lparr>UpdateTime := now w\<rparr>)"
    by (rule updateServiceMaps_imported_chart)
next
  assume "\<not> FromZadig productSvc"
    and "find (\<lambda>kv. ReleaseName (snd kv) = ReleaseName productSvc)
           (mapRange w (GetServiceMap groups)) = None"
  then show "fst (updateServiceMaps w productSvc (GetServiceMap groups) (GetChartServiceMap groups))
               = GetServiceMap groups"
    by (rule updateServiceMaps_imported_none)
next
  fix kv
  assume "\<not> FromZadig productSvc"
    and "find (\<lambda>kv. ReleaseName (snd kv) = ReleaseName productSvc)
           (mapRange w (GetServiceMap groups)) = Some kv"
  then show "map_of (GetServiceMap groups) (fst kv) = Some (snd kv)"
    by (rule updateServiceMaps_imported_first(1))
next
  fix kv
  assume "\<not> FromZadig productSvc"
    and "find (\<lambda>kv. ReleaseName (snd kv) = ReleaseName productSvc)
           (mapRange w (GetServiceMap groups)) = Some kv"
  then show "map_of (fst (updateServiceMaps w productSvc (GetServiceMap groups)
                            (GetChartServiceMap groups)))
                   = (map_of (GetServiceMap groups))(fst kv := None)"
    by (rule updateServiceMaps_imported_first(2))
next
  assume "\<not> FromZadig productSvc
        \<and> length (filter (\<lambda>kv. ReleaseName (snd kv) = ReleaseName productSvc)
                    (GetServiceMap groups)) \<le> 1"
  then show "list_all (\<lambda>kv. ReleaseName (snd kv) \<noteq> ReleaseName productSvc)
            (fst (updateServiceMaps w productSvc (GetServiceMap groups) (GetChartServiceMap groups)))"
    using updateServiceMaps_none_remains [of productSvc w groups] by blast
qed

theorem updateServiceMaps_exclusive_witness:
  "FromZadig (nativeSvc ''b'' ''r'')
   \<and> map_of (snd (updateServiceMaps exampleWorld (nativeSvc ''b'' ''r'')
         (GetServiceMap (Services exampleEnv)) (GetChartServiceMap (Services exampleEnv)))) ''r'' = None
   \<and> map_of (fst (updateServiceMaps exampleWorld (nativeSvc ''b'' ''r'')
         (GetServiceMap (Services exampleEnv)) (GetChartServiceMap (Services exampleEnv)))) ''b''
       = Some ((nativeSvc ''b'' ''r'')\<lparr>UpdateTime := 1700000000\<rparr>)
   \<and> \<not> FromZadig (chartSvc ''rb'')
   \<and> find (\<lambda>kv. ReleaseName (snd kv) = ReleaseName (chartSvc ''rb''))
         (mapRange exampleWorld (GetServiceMap (Services exampleEnv)))
       = Some (''b'', nativeSvc ''b'' ''rb'')
   \<and> length (filter (\<lambda>kv. ReleaseName (snd kv) = ReleaseName (chartSvc ''rb''))
               (GetServiceMap (Services exampleEnv))) \<le> 1
   \<and> fst (updateServiceMaps exampleWorld (chartSvc ''rb'')
         (GetServiceMap (Services exampleEnv)) (GetChartServiceMap (Services exampleEnv)))
       = [(''a'', nativeSvc ''a'' ''ra''), (''c'', nativeSvc ''c'' ''rc'')]
   \<and> snd (updateServiceMaps exampleWorld (chartSvc ''rb'')
         (GetServiceMap (Services exampleEnv)) (GetChartServiceMap (Services exampleEnv)))
       = [(''r'', chartSvc ''r''), (''rb'', (chartSvc ''rb'')\<lparr>UpdateTime := 1700000000\<rparr>)]
   \<and> list_all (\<lambda>kv. ReleaseName (snd kv) \<noteq> ReleaseName (chartSvc ''rb''))
       (fst (updateServiceMaps exampleWorld (chartSvc ''rb'')
         (GetServiceMap (Services exampleEnv)) (GetChartServiceMap (Services exampleEnv))))"
proof -
  note native = conjunct1 [OF updateServiceMaps_exclusive
      [of "nativeSvc ''b'' ''r''" exampleWorld "Services exampleEnv"]]
  note imported = conjunct2 [OF updateServiceMaps_exclusive
      [of "chartSvc ''rb''" exampleWorld "Services exampleEnv"]]
  have n: "FromZadig (nativeSvc ''b'' ''r'')" by (simp add: FromZadig_def nativeSvc_def)
  have c: "\<not> FromZadig (chartSvc ''rb'')" by (simp add: FromZadig_def chartSvc_def)
  have f: "find (\<lambda>kv. ReleaseName (snd kv) = ReleaseName (chartSvc ''rb''))
         (mapRange exampleWorld (GetServiceMap (Services exampleEnv)))
       = Some (''b'', nativeSvc ''b'' ''rb'')"
    by (simp add: mapRange_def GetServiceMap_def FromZadig_def nativeSvc_def chartSvc_def
          exampleEnv_def exampleWorld_def)
  have l: "length (filter (\<lambda>kv. ReleaseName (snd kv) = ReleaseName (chartSvc ''rb''))
               (GetServiceMap (Services exampleEnv))) \<le> 1"
    by (simp add: GetServiceMap_def FromZadig_def nativeSvc_def chartSvc_def exampleEnv_def)
  have e1: "fst (updateServiceMaps exampleWorld (chartSvc ''rb'')
         (GetServiceMap (Services exampleEnv)) (GetChartServiceMap (Services exampleEnv)))
       = [(''a'', nativeSvc ''a'' ''ra''), (''c'', nativeSvc ''c'' ''rc'')]"
    by (simp add: updateServiceMaps_def mapRange_def GetServiceMap_def GetChartServiceMap_def
          FromZadig_def nativeSvc_def chartSvc_def exampleEnv_def exampleWorld_def)
  have e2: "snd (updateServiceMaps exampleWorld (chartSvc ''rb'')
         (GetServiceMap (Services exampleEnv)) (GetChartServiceMap (Services exampleEnv)))
       = [(''r'', chartSvc ''r''), (''rb'', (chartSvc ''rb'')\<lparr>UpdateTime := 1700000000\<rparr>)]"
    by (simp add: updateServiceMaps_def mapRange_def GetServiceMap_def GetChartServiceMap_def
          FromZadig_def nativeSvc_def chartSvc_def exampleEnv_def exampleWorld_def)
  have now: "now exampleWorld = 1700000000" by (simp add: exampleWorld_def)
  from native n have a1: "map_of (snd (updateServiceMaps exampleWorld (nativeSvc ''b'' ''r'')
         (GetServiceMap (Services exampleEnv)) (GetChartServiceMap (Services exampleEnv)))) ''r'' = None"
    by (simp add: nativeSvc_def)
  from native n have a2: "map_of (fst (updateServiceMaps exampleWorld (nativeSvc ''b'' ''r'')
         (GetServiceMap (Services exampleEnv)) (GetChartServiceMap (Services exampleEnv)))) ''b''
       = Some ((nativeSvc ''b'' ''r'')\<lparr>UpdateTime := 1700000000\<rparr>)"
    by (simp add: nativeSvc_def now)
  from imported c l have a3: "list_all (\<lambda>kv. ReleaseName (snd kv) \<noteq> ReleaseName (chartSvc ''rb''))
       (fst (updateServiceMaps exampleWorld (chartSvc ''rb'')
         (GetServiceMap (Services exampleEnv)) (GetChartServiceMap (Services exampleEnv))))"
    by blast
  show ?thesis using n c f l e1 e2 a1 a2 a3 by blast
qed

subsection \<open>Native services outside the template\<close>

text \<open>
  Claim C10. Whenever a commit operation returns \<open>nil\<close>, every native service among the
  services it wrote is named in a group of the selected template orchestration; a native
  service whose name is in no template group is therefore not written, and no error
  reports it.
\<close>

theorem committed_natives_in_template:
  "(\<forall>svc \<in> set (committedServices (UpdateHelmServiceInEnv w product productSvc user)).
      FromZadig svc \<longrightarrow>
        (\<exists>tp. TemplateFind w (ProductName product) = Inr tp
           \<and> ServiceName svc \<in> set (concat (if Production product then ProductionServices tp
                                               else TemplateServices tp))))
   \<and> (\<forall>svc \<in> set (committedServices
                     (UpdateHelmAllServicesInEnv w productName envName services production)).
      FromZadig svc \<longrightarrow>
        (\<exists>tp. TemplateFind w productName = Inr tp
           \<and> ServiceName svc \<in> set (concat (if production then ProductionServices tp
                                               else TemplateServices tp))))
   \<and> (\<forall>svc \<in> set (committedServices
                     (UpdateHelmServicesGroupInEnv w productName envName index grp production)).
      FromZadig svc \<longrightarrow>
        (\<exists>tp. TemplateFind w productName = Inr tp
           \<and> ServiceName svc \<in> set (concat (if production then ProductionServices tp
                                               else TemplateServices tp))))"
proof (intro conjI ballI impI)
  fix svc
  assume svc: "svc \<in> set (committedServices (UpdateHelmServiceInEnv w product productSvc user))"
    and nat: "FromZadig svc"
  from committed_UpdateHelmServiceInEnv [OF svc] obtain tp and info :: Product and newServices where
    tp: "TemplateFind w (ProductName product) = Inr tp"
    and rb: "rebuildServices w (if Production product then ProductionServices tp else TemplateServices tp)
                (fst (updateServiceMaps w productSvc (GetServiceMap (LintServices w (Services info)))
                        (GetChartServiceMap (LintServices w (Services info)))))
                (snd (updateServiceMaps w productSvc (GetServiceMap (LintServices w (Services info)))
                        (GetChartServiceMap (LintServices w (Services info)))))
               = Inr newServices"
    and mem: "svc \<in> set (concat newServices)"
    by blast
  have "ServiceName svc \<in> set (concat (if Production product then ProductionServices tp
                                               else TemplateServices tp))"
    using rebuildServices_members [OF rb mem]
  proof (rule native_member_in_template)
    fix k v
    assume "(k, v) \<in> set (fst (updateServiceMaps w productSvc (GetServiceMap (LintServices w (Services info)))
                        (GetChartServiceMap (LintServices w (Services info)))))"
    then show "ServiceName v = k"
      using updateServiceMaps_native_entry GetServiceMap_entry by blast
  next
    fix k v
    assume "(k, v) \<in> set (snd (updateServiceMaps w productSvc (GetServiceMap (LintServices w (Services info)))
                        (GetChartServiceMap (LintServices w (Services info)))))"
    then show "\<not> FromZadig v"
      using updateServiceMaps_chart_entry GetChartServiceMap_entry by blast
  next
    show "FromZadig svc" by (rule nat)
  qed
  with tp show "\<exists>tp. TemplateFind w (ProductName product) = Inr tp
           \<and> ServiceName svc \<in> set (concat (if Production product then ProductionServices tp
                                               else TemplateServices tp))"
    by blast
next
  fix svc
  assume svc: "svc \<in> set (committedServices
                     (UpdateHelmAllServicesInEnv w productName envName services production))"
    and nat: "FromZadig svc"
  from committed_UpdateHelmAllServicesInEnv [OF svc] obtain tp newServices where
    tp: "TemplateFind w productName = Inr tp"
    and rb: "rebuildServices w (if production then ProductionServices tp else TemplateServices tp)
                (GetServiceMap (LintServices w services)) (GetChartServiceMap (LintServices w services))
               = Inr newServices"
    and mem: "svc \<in> set (concat newServices)"
    by blast
  have "ServiceName svc \<in> set (concat (if production then ProductionServices tp
                                               else TemplateServices tp))"
    using rebuildServices_members [OF rb mem]
    by (rule native_member_in_template)
       (use GetServiceMap_entry GetChartServiceMap_entry nat in blast)+
  with tp show "\<exists>tp. TemplateFind w productName = Inr tp
           \<and> ServiceName svc \<in> set (concat (if production then ProductionServices tp
                                               else TemplateServices tp))"
    by blast
next
  fix svc
  assume svc: "svc \<in> set (committedServices
                     (UpdateHelmServicesGroupInEnv w productName envName index grp production))"
    and nat: "FromZadig svc"
  from committed_UpdateHelmServicesGroupInEnv [OF svc] obtain tp where
    tp: "TemplateFind w productName = Inr tp"
    and mem: "svc \<in> set (rebuildGroup w (if production then ProductionServices tp else TemplateServices tp)
                (GetServiceMap (LintServices w [grp])) (GetChartServiceMap (LintServices w [grp])))"
    by blast
  have "ServiceName svc \<in> set (concat (if production then ProductionServices tp
                                               else TemplateServices tp))"
    using rebuildGroup_members [OF mem]
    by (rule native_member_in_template)
       (use GetServiceMap_entry GetChartServiceMap_entry nat in blast)+
  with tp show "\<exists>tp. TemplateFind w productName = Inr tp
           \<and> ServiceName svc \<in> set (concat (if production then ProductionServices tp
                                               else TemplateServices tp))"
    by blast
qed

theorem committed_natives_in_template_witness:
  "nativeSvc ''a'' ''ra''
     \<in> set (committedServices (UpdateHelmAllServicesInEnv exampleWorld ''p'' ''dev''
                [[nativeSvc ''a'' ''ra'', nativeSvc ''x'' ''rx'']] False))
   \<and> FromZadig (nativeSvc ''a'' ''ra'')
   \<and> TemplateFind exampleWorld ''p'' = Inr exampleTemplate
   \<and> ServiceName (nativeSvc ''a'' ''ra'') \<in> set (concat (TemplateServices exampleTemplate))
   \<and> nativeSvc ''x'' ''rx''
     \<notin> set (committedServices (UpdateHelmAllServicesInEnv exampleWorld ''p'' ''dev''
                [[nativeSvc ''a'' ''ra'', nativeSvc ''x'' ''rx'']] False))
   \<and> snd (UpdateHelmAllServicesInEnv exampleWorld ''p'' ''dev''
                [[nativeSvc ''a'' ''ra'', nativeSvc ''x'' ''rx'']] False) = ReturnNil"
  using committed_natives_in_template
    [of exampleWorld exampleEnv "nativeSvc ''b'' ''rb''" "''user''" "''p''" "''dev''"
        "[[nativeSvc ''a'' ''ra'', nativeSvc ''x'' ''rx'']]" False 0 "[]"]
  by (simp add: UpdateHelmAllServicesInEnv_def committedServices_def mapRange_def helm_defs)

section \<open>Properties of the job compiler\<close>

lemmas job_defs = exampleCatalog_def exampleWorkflow_def buildJob_def testJob_def
  fromJobSpec_def serviceSpec_def productSpec_def exampleModule_def exampleTesting_def
  jobsInOrder_def resolvableJobType_def missingSuiteSpec_def
  ProductTestType_def ServiceTestType_def SourceFromJob_def JobZadigBuild_def
  JobZadigDistributeImage_def JobZadigDeploy_def JobZadigScanning_def JobZadigTesting_def
  JobVMInfrastructure_def ObjectMedium_def NFSMedium_def

subsection \<open>Cross-job target resolver\<close>

lemma find_append_case:
  "find P (xs @ ys) = (case find P xs of None \<Rightarrow> find P ys | Some x \<Rightarrow> Some x)"
  by (induction xs) simp_all

lemma jobType_distinct:
  "JobZadigBuild \<noteq> JobZadigDistributeImage" "JobZadigBuild \<noteq> JobZadigDeploy"
  "JobZadigBuild \<noteq> JobZadigScanning"
  by (simp_all add: JobZadigBuild_def JobZadigDistributeImage_def JobZadigDeploy_def
        JobZadigScanning_def)

lemma refereredJobTargetsOfJobs_none:
  "find (\<lambda>job. Name job = jobName \<and> resolvableJobType (JobType job)) jobs = None
   \<Longrightarrow> refereredJobTargetsOfJobs cat jobName jobs = None"
  by (induction jobs) (auto simp: resolvableJobType_def split: if_splits)

lemma refereredJobTargetsOfJobs_build:
  "find (\<lambda>job. Name job = jobName \<and> resolvableJobType (JobType job)) jobs = Some job
   \<Longrightarrow> JobType job = JobZadigBuild
   \<Longrightarrow> refereredJobTargetsOfJobs cat jobName jobs =
         Some (case IToi_build cat (Spec job) of
                 Inl err \<Rightarrow> Inl err
               | Inr buildSpec \<Rightarrow>
                   Inr (map (\<lambda>build. \<lparr>ServiceName_tgt = ServiceName_bld build,
                                       ServiceModule_tgt = ServiceModule_bld build\<rparr>)
                          (ServiceAndBuilds buildSpec)))"
  by (induction jobs) (auto simp: resolvableJobType_def split: if_splits)

lemma refereredJobTargetsOfStages_none:
  "find (\<lambda>job. Name job = jobName \<and> resolvableJobType (JobType job)) (concat (map Jobs stages)) = None
   \<Longrightarrow> refereredJobTargetsOfStages cat jobName stages
         = Inl (Err (''build job '' @ jobName @ '' not found''))"
  by (induction stages)
     (auto simp: find_append_case refereredJobTargetsOfJobs_none split: option.splits)

lemma refereredJobTargetsOfStages_build:
  "find (\<lambda>job. Name job = jobName \<and> resolvableJobType (JobType job)) (concat (map Jobs stages)) = Some job
   \<Longrightarrow> JobType job = JobZadigBuild
   \<Longrightarrow> refereredJobTargetsOfStages cat jobName stages =
         (case IToi_build cat (Spec job) of
                 Inl err \<Rightarrow> Inl err
               | Inr buildSpec \<Rightarrow>
                   Inr (map (\<lambda>build. \<lparr>ServiceName_tgt = ServiceName_bld build,
                                       ServiceModule_tgt = ServiceModule_bld build\<rparr>)
                          (ServiceAndBuilds buildSpec)))"
proof (induction stages)
  case Nil
  then show ?case by simp
next
  case (Cons stage stages)
  show ?case
  proof (cases "find (\<lambda>job. Name job = jobName \<and> resolvableJobType (JobType job)) (Jobs stage)")
    case None
    then show ?thesis
      using Cons by (simp add: find_append_case refereredJobTargetsOfJobs_none)
  next
    case (Some j)
    then have "j = job" using Cons.prems(1) by (simp add: find_append_case)
    then show ?thesis
      using Some Cons.prems(2) by (simp add: refereredJobTargetsOfJobs_build)
  qed
qed

text \<open>
  Claim C4. The resolver scans the jobs in declaration order, stage by stage. When the
  first job with the name and a type it reads targets from is a build job whose payload
  decodes, it returns one target per entry of that job's service-and-build list, in the
  order of the list; when no job has the name, or every job with the name has another
  type, it fails with the error \<open>build job ... not found\<close>.
\<close>

theorem getOriginReferedJobTargets_build_or_not_found:
  "(find (\<lambda>job. Name job = jobName \<and> resolvableJobType (JobType job)) (jobsInOrder workflow)
       = Some job
     \<and> JobType job = JobZadigBuild \<and> IToi_build cat (Spec job) = Inr buildSpec
    \<longrightarrow> getOriginReferedJobTargets cat workflow jobName
          = Inr (map (\<lambda>build. \<lparr>ServiceName_tgt = ServiceName_bld build,
                               ServiceModule_tgt = ServiceModule_bld build\<rparr>)
                   (ServiceAndBuilds buildSpec)))
   \<and> (find (\<lambda>job. Name job = jobName \<and> resolvableJobType (JobType job)) (jobsInOrder workflow)
         = None
      \<longrightarrow> getOriginReferedJobTargets cat workflow jobName
            = Inl (Err (''build job '' @ jobName @ '' not found'')))"
  by (auto simp: getOriginReferedJobTargets_def jobsInOrder_def
        refereredJobTargetsOfStages_none refereredJobTargetsOfStages_build)

theorem getOriginReferedJobTargets_build_or_not_found_witness:
  "find (\<lambda>job. Name job = ''build1'' \<and> resolvableJobType (JobType job))
       (jobsInOrder exampleWorkflow) = Some buildJob
   \<and> JobType buildJob = JobZadigBuild
   \<and> getOriginReferedJobTargets exampleCatalog exampleWorkflow ''build1''
       = Inr [\<lparr>ServiceName_tgt = ''svcA'', ServiceModule_tgt = ''modA''\<rparr>,
              \<lparr>ServiceName_tgt = ''svcB'', ServiceModule_tgt = ''modB''\<rparr>]
   \<and> find (\<lambda>job. Name job = ''deploy9'' \<and> resolvableJobType (JobType job))
       (jobsInOrder exampleWorkflow) = None
   \<and> getOriginReferedJobTargets exampleCatalog exampleWorkflow ''deploy9''
       = Inl (Err ''build job deploy9 not found'')"
proof -
  have f: "find (\<lambda>job. Name job = ''build1'' \<and> resolvableJobType (JobType job))
       (jobsInOrder exampleWorkflow) = Some buildJob"
    by (simp add: job_defs)
  have t: "JobType buildJob = JobZadigBuild" by (simp add: buildJob_def)
  have d: "IToi_build exampleCatalog (Spec buildJob)
            = Inr \<lparr>ServiceAndBuilds =
               [\<lparr>ServiceName_bld = ''svcA'', ServiceModule_bld = ''modA''\<rparr>,
                \<lparr>ServiceName_bld = ''svcB'', ServiceModule_bld = ''modB''\<rparr>]\<rparr>"
    by (simp add: buildJob_def exampleCatalog_def)
  have n: "find (\<lambda>job. Name job = ''deploy9'' \<and> resolvableJobType (JobType job))
       (jobsInOrder exampleWorkflow) = None"
    by (simp add: job_defs)
  show ?thesis
    using f t d n
      getOriginReferedJobTargets_build_or_not_found
        [of "''build1''" exampleWorkflow buildJob exampleCatalog
            "\<lparr>ServiceAndBuilds =
               [\<lparr>ServiceName_bld = ''svcA'', ServiceModule_bld = ''modA''\<rparr>,
                \<lparr>ServiceName_bld = ''svcB'', ServiceModule_bld = ''modB''\<rparr>]\<rparr>"]
      getOriginReferedJobTargets_build_or_not_found
        [of "''deploy9''" exampleWorkflow buildJob exampleCatalog
            "\<lparr>ServiceAndBuilds = []\<rparr>"]
    by simp
qed

subsection \<open>Cache policy of a cluster without a medium\<close>

lemma cacheProperties_no_medium:
  assumes "infrastructure \<noteq> JobVMInfrastructure"
    and "MediumType (Cache_cluster clusterInfo) = ''''"
  shows "cacheProperties cat testingInfo clusterInfo infrastructure props
           = (props\<lparr>CacheEnable := False\<rparr>, Inr emptyS3)"
  using assms by (simp add: cacheProperties_def)

text \<open>
  Claim C5. When the suite runs on cluster infrastructure and the cluster declares the
  empty cache medium, every task that \<open>toJobtask\<close> returns, with or without an error, has
  \<open>CacheEnable = false\<close>, whatever the catalog's own flag; and a task is returned when
  the remaining lookups succeed.
\<close>

theorem toJobtask_cluster_without_medium:
  assumes find: "TestingColl_Find cat (TestName testing) = Inr testingInfo"
    and infra: "Infrastructure_info testingInfo \<noteq> JobVMInfrastructure"
    and cluster: "K8SClusterColl_Get cat (ClusterID_pre (PreTestOf testingInfo)) = Inr clusterInfo"
    and medium: "MediumType (Cache_cluster clusterInfo) = ''''"
  shows "(\<forall>jobTask. toJobtask cat workflow job testing defaultS3 taskID testType serviceName
                      serviceModule = Inr jobTask
            \<longrightarrow> \<not> CacheEnable (Properties jobTask))
       \<and> (\<forall>jobTask err. toJobtask cat workflow job testing defaultS3 taskID testType serviceName
                      serviceModule = Inl (Some jobTask, err)
            \<longrightarrow> \<not> CacheEnable (Properties jobTask))
       \<and> ((\<exists>basicImage. BasicImageColl_Find cat (ImageID (PreTestOf testingInfo)) = Inr basicImage)
            \<and> (\<exists>registries. ListRegistryNamespaces cat = Inr registries)
            \<and> PostTestOf testingInfo = None
          \<longrightarrow> (\<exists>jobTask. toJobtask cat workflow job testing defaultS3 taskID testType serviceName
                      serviceModule = Inr jobTask \<and> \<not> CacheEnable (Properties jobTask)))"
  using assms
  by (auto simp: toJobtask_def Let_def cacheProperties_no_medium
        split: sum.splits option.splits if_splits)

theorem toJobtask_cluster_without_medium_witness:
  "TestingColl_Find exampleCatalog (TestName (exampleModule ''t1'')) = Inr (exampleTesting ''t1'' ''o1'')
   \<and> CacheEnable_info (exampleTesting ''t1'' ''o1'')
   \<and> Infrastructure_info (exampleTesting ''t1'' ''o1'') \<noteq> JobVMInfrastructure
   \<and> K8SClusterColl_Get exampleCatalog (ClusterID_pre (PreTestOf (exampleTesting ''t1'' ''o1'')))
       = Inr \<lparr>Cache_cluster = \<lparr>MediumType = '''', ObjectID = '''', NFSSubpath = ''''\<rparr>\<rparr>
   \<and> (\<exists>jobTask. toJobtask exampleCatalog exampleWorkflow (testJob ''test2'' (productSpec [''t1'']))
                    (exampleModule ''t1'') \<lparr>S3ID = ''default''\<rparr> 1 '''' '''' '''' = Inr jobTask
                  \<and> \<not> CacheEnable (Properties jobTask))"
proof -
  have f: "TestingColl_Find exampleCatalog (TestName (exampleModule ''t1''))
             = Inr (exampleTesting ''t1'' ''o1'')"
    by (simp add: exampleCatalog_def exampleModule_def)
  have i: "Infrastructure_info (exampleTesting ''t1'' ''o1'') \<noteq> JobVMInfrastructure"
    by (simp add: exampleTesting_def JobVMInfrastructure_def)
  have c: "K8SClusterColl_Get exampleCatalog (ClusterID_pre (PreTestOf (exampleTesting ''t1'' ''o1'')))
       = Inr \<lparr>Cache_cluster = \<lparr>MediumType = '''', ObjectID = '''', NFSSubpath = ''''\<rparr>\<rparr>"
    by (simp add: exampleCatalog_def)
  have m: "MediumType (Cache_cluster \<lparr>Cache_cluster = \<lparr>MediumType = '''', ObjectID = '''',
              NFSSubpath = ''''\<rparr>\<rparr>) = ''''"
    by simp
  have rest: "(\<exists>basicImage. BasicImageColl_Find exampleCatalog
                  (ImageID (PreTestOf (exampleTesting ''t1'' ''o1''))) = Inr basicImage)
            \<and> (\<exists>registries. ListRegistryNamespaces exampleCatalog = Inr registries)
            \<and> PostTestOf (exampleTesting ''t1'' ''o1'') = None"
    by (simp add: exampleCatalog_def exampleTesting_def)
  have e: "CacheEnable_info (exampleTesting ''t1'' ''o1'')"
    by (simp add: exampleTesting_def)
  show ?thesis
    using f i c e rest
      conjunct2 [OF conjunct2 [OF toJobtask_cluster_without_medium [OF f i c m,
        of exampleWorkflow "testJob ''test2'' (productSpec [''t1''])" "\<lparr>S3ID = ''default''\<rparr>" 1
           "''''" "''''" "''''"]]]
    by blast
qed

subsection \<open>Lint\<close>

lemma rankGreaterEq_refl: "rankGreaterEq r r"
  by (cases r) (simp add: rankGreaterEq_def)

lemma rankEntries_member:
  assumes "i < length stages" "k < length (Jobs (stages ! i))"
  shows "(Name (Jobs (stages ! i) ! k), (i, k)) \<in> set (rankEntries stages)"
proof -
  have "(i, stages ! i) \<in> set (enumerate 0 stages)"
    using assms(1) by (simp add: in_set_enumerate_eq)
  moreover have "(k, Jobs (stages ! i) ! k) \<in> set (enumerate 0 (Jobs (stages ! i)))"
    using assms(2) by (simp add: in_set_enumerate_eq)
  ultimately show ?thesis
    unfolding rankEntries_def by (simp only: set_concat set_map) force
qed

lemma getJobRankMap_position:
  assumes "distinct (map fst (rankEntries stages))"
    and "i < length stages" "k < length (Jobs (stages ! i))"
  shows "getJobRankMap stages (Name (Jobs (stages ! i) ! k)) = Some (i, k)"
proof -
  have "distinct (map fst (rev (rankEntries stages)))"
    using assms(1) by (simp add: rev_map [symmetric])
  moreover have "(Name (Jobs (stages ! i) ! k), (i, k)) \<in> set (rev (rankEntries stages))"
    using rankEntries_member [OF assms(2,3)] by simp
  ultimately show ?thesis
    unfolding getJobRankMap_def by (rule map_of_is_SomeI)
qed

lemma LintJob_decoded:
  assumes "IToiYaml_testing cat (Spec job) = Inr spec"
  shows "LintJob cat workflow job =
           (if Source spec \<noteq> SourceFromJob then None
            else case getJobRankMap (Stages workflow) (JobName spec) of
                   None \<Rightarrow> Some (Err (''can not quote job '' @ JobName spec @ '' in job '' @ Name job))
                 | Some buildJobRank \<Rightarrow>
                     if rankLess buildJobRank (rankOf (getJobRankMap (Stages workflow)) (Name job))
                     then None
                     else Some (Err (''can not quote job '' @ JobName spec @ '' in job '' @ Name job)))"
  using assms by (simp add: LintJob_def Let_def rankGreaterEq_def split: option.splits)

text \<open>
  Claim C6. For a job whose payload decodes: \<open>LintJob\<close> returns no error when the source
  is not "from job"; when it is, \<open>LintJob\<close> returns an error exactly when the referenced
  job has no rank strictly less than the rank of the current job. A reference of a job to
  itself fails; and in a workflow whose job names are distinct, a reference from the job
  at stage \<open>i'\<close>, position \<open>k'\<close> to the job at stage \<open>i\<close>, position \<open>k\<close> succeeds exactly when
  \<open>(i, k)\<close> comes before \<open>(i', k')\<close>, so that a reference to a later stage fails and a
  reference to an earlier stage succeeds.
\<close>

theorem LintJob_backward_references_only:
  assumes "IToiYaml_testing cat (Spec job) = Inr spec"
  shows "(Source spec \<noteq> SourceFromJob \<longrightarrow> LintJob cat workflow job = None)
       \<and> (Source spec = SourceFromJob \<longrightarrow>
            isError (LintJob cat workflow job)
              = (\<not> (\<exists>r. getJobRankMap (Stages workflow) (JobName spec) = Some r
                       \<and> rankLess r (rankOf (getJobRankMap (Stages workflow)) (Name job)))))
       \<and> (Source spec = SourceFromJob \<and> JobName spec = Name job
            \<longrightarrow> isError (LintJob cat workflow job))
       \<and> (Source spec = SourceFromJob
            \<and> distinct (map fst (rankEntries (Stages workflow)))
            \<and> i < length (Stages workflow) \<and> k < length (Jobs (Stages workflow ! i))
            \<and> Name (Jobs (Stages workflow ! i) ! k) = JobName spec
            \<and> i' < length (Stages workflow) \<and> k' < length (Jobs (Stages workflow ! i'))
            \<and> Jobs (Stages workflow ! i') ! k' = job
          \<longrightarrow> isError (LintJob cat workflow job) = (\<not> (i < i' \<or> (i = i' \<and> k < k'))))"
proof (intro conjI impI)
  assume "Source spec \<noteq> SourceFromJob"
  then show "LintJob cat workflow job = None"
    by (simp add: LintJob_decoded [OF assms])
next
  assume "Source spec = SourceFromJob"
  then show "isError (LintJob cat workflow job)
              = (\<not> (\<exists>r. getJobRankMap (Stages workflow) (JobName spec) = Some r
                       \<and> rankLess r (rankOf (getJobRankMap (Stages workflow)) (Name job))))"
    by (simp add: LintJob_decoded [OF assms] isError_def split: option.splits)
next
  assume a: "Source spec = SourceFromJob \<and> JobName spec = Name job"
  have "\<And>r. getJobRankMap (Stages workflow) (Name job) = Some r
          \<Longrightarrow> \<not> rankLess r (rankOf (getJobRankMap (Stages workflow)) (Name job))"
    using rankGreaterEq_refl by (simp add: rankOf_def rankGreaterEq_def)
  then show "isError (LintJob cat workflow job)"
    using a by (simp add: LintJob_decoded [OF assms] isError_def split: option.splits)
next
  assume a: "Source spec = SourceFromJob
            \<and> distinct (map fst (rankEntries (Stages workflow)))
            \<and> i < length (Stages workflow) \<and> k < length (Jobs (Stages workflow ! i))
            \<and> Name (Jobs (Stages workflow ! i) ! k) = JobName spec
            \<and> i' < length (Stages workflow) \<and> k' < length (Jobs (Stages workflow ! i'))
            \<and> Jobs (Stages workflow ! i') ! k' = job"
  have ref: "getJobRankMap (Stages workflow) (JobName spec) = Some (i, k)"
    using a getJobRankMap_position [of "Stages workflow" i k] by auto
  have cur: "getJobRankMap (Stages workflow) (Name job) = Some (i', k')"
    using a getJobRankMap_position [of "Stages workflow" i' k'] by auto
  show "isError (LintJob cat workflow job) = (\<not> (i < i' \<or> (i = i' \<and> k < k')))"
    using a ref cur by (simp add: LintJob_decoded [OF assms] isError_def rankOf_def)
qed

theorem LintJob_backward_references_only_witness:
  "IToiYaml_testing exampleCatalog (Spec (testJob ''test1'' (fromJobSpec ''build1'')))
     = Inr (fromJobSpec ''build1'')
   \<and> Source (fromJobSpec ''build1'') = SourceFromJob
   \<and> distinct (map fst (rankEntries (Stages exampleWorkflow)))
   \<and> Name (Jobs (Stages exampleWorkflow ! 0) ! 0) = JobName (fromJobSpec ''build1'')
   \<and> Jobs (Stages exampleWorkflow ! 1) ! 0 = testJob ''test1'' (fromJobSpec ''build1'')
   \<and> \<not> isError (LintJob exampleCatalog exampleWorkflow (testJob ''test1'' (fromJobSpec ''build1'')))
   \<and> Source (productSpec [''t1'']) \<noteq> SourceFromJob
   \<and> LintJob exampleCatalog exampleWorkflow (testJob ''test2'' (productSpec [''t1''])) = None"
proof -
  have d: "IToiYaml_testing exampleCatalog (Spec (testJob ''test1'' (fromJobSpec ''build1'')))
     = Inr (fromJobSpec ''build1'')"
    by (simp add: exampleCatalog_def testJob_def)
  have d2: "IToiYaml_testing exampleCatalog (Spec (testJob ''test2'' (productSpec [''t1''])))
     = Inr (productSpec [''t1''])"
    by (simp add: exampleCatalog_def testJob_def)
  have facts: "Source (fromJobSpec ''build1'') = SourceFromJob"
    "distinct (map fst (rankEntries (Stages exampleWorkflow)))"
    "Name (Jobs (Stages exampleWorkflow ! 0) ! 0) = JobName (fromJobSpec ''build1'')"
    "Jobs (Stages exampleWorkflow ! 1) ! 0 = testJob ''test1'' (fromJobSpec ''build1'')"
    "Source (productSpec [''t1'']) \<noteq> SourceFromJob"
    "length (Stages exampleWorkflow) = 3"
    "length (Jobs (Stages exampleWorkflow ! 0)) = 1"
    "length (Jobs (Stages exampleWorkflow ! 1)) = 1"
    by (simp_all add: job_defs rankEntries_def enumerate_eq_zip)
  have e: "\<not> isError (LintJob exampleCatalog exampleWorkflow
                 (testJob ''test1'' (fromJobSpec ''build1'')))"
    using facts
      conjunct2 [OF conjunct2 [OF conjunct2
        [OF LintJob_backward_references_only [OF d, of exampleWorkflow 0 0 1 0]]]]
    by simp
  show ?thesis
    using d facts e
      conjunct1 [OF LintJob_backward_references_only [OF d2, of exampleWorkflow 0 0 0 0]]
    by simp
qed

subsection \<open>Output keys\<close>

text \<open>
  For a job that is not service-level, the outputs of every catalog entry listed are
  addressed with the two-part key of the job name and the suite name.
\<close>

lemma GetOutPuts_product_level:
  assumes "IToiYaml_testing cat (Spec job) = Inr spec"
    and "TestType spec \<noteq> ServiceTestType"
    and "TestingColl_List cat (map TestName (TestModules spec)) = Inr testingInfos"
  shows "GetOutPuts cat job =
           concat (map (\<lambda>testingInfo.
                     getOutputKey cat (joinDot [Name job, Name_info testingInfo])
                       (Outputs_info testingInfo)) testingInfos)"
  using assms by (simp add: GetOutPuts_def outputJobKey_def)

text \<open>
  Claim C7. For a service-level job the key is assigned again by every matching pair of
  a target and a service-and-test entry, so the outputs of every suite are addressed with
  the key of the last matching pair. In the example the output \<open>o1\<close> of suite \<open>t1\<close>, which
  tests (svcA, modA), is addressed as \<open>test3.t2.svcB.modB.o1\<close>, while the task that
  \<open>ToJobs\<close> compiles for \<open>t1\<close> has the key \<open>test3.t1.svcA.modA\<close>.
\<close>

theorem GetOutPuts_service_level_key:
  "GetOutPuts exampleCatalog (testJob ''test3'' serviceSpec)
     = [''test3.t2.svcB.modB.o1'', ''test3.t2.svcB.modB.o2'']
   \<and> map TaskKey (fst (ToJobs exampleCatalog exampleWorkflow (testJob ''test3'' serviceSpec) 1))
     = [''test3.t1.svcA.modA'', ''test3.t2.svcB.modB'']"
  by (simp add: GetOutPuts_def outputJobKey_def ToJobs_def toJobtask_def Let_def
        cacheProperties_def job_defs)

subsection \<open>A failed catalog lookup\<close>

lemma testType_distinct: "ProductTestType \<noteq> ServiceTestType"
  by (simp add: ProductTestType_def ServiceTestType_def)

lemma presetTestModule_skip:
  "TestingColl_Find cat (TestName testing) = Inl err \<Longrightarrow> presetTestModule cat testing = testing"
  by (simp add: presetTestModule_def)

lemma SetPreset_product:
  assumes "IToi_testing cat (Spec job) = Inr spec" "TestType spec = ProductTestType"
  shows "\<exists>spec'. SetPreset cat workflow job = Inr spec'
           \<and> TestModules spec' = map (presetTestModule cat) (TestModules spec)"
  using assms testType_distinct by (simp add: SetPreset_def Let_def)

lemma SetPreset_service:
  assumes "IToi_testing cat (Spec job) = Inr spec" "TestType spec = ServiceTestType"
  shows "\<exists>spec'. SetPreset cat workflow job = Inr spec'
           \<and> ServiceAndTests spec' =
               map (\<lambda>testing. testing\<lparr>TestModule_sat := presetTestModule cat (TestModule_sat testing)\<rparr>)
                 (ServiceAndTests spec)"
  using assms testType_distinct by (simp add: SetPreset_def Let_def)

lemma SetPreset_succeeds:
  assumes "IToi_testing cat (Spec job) = Inr spec"
  shows "\<exists>spec'. SetPreset cat workflow job = Inr spec'"
  using assms by (simp add: SetPreset_def Let_def)

lemma toJobtask_lookup_failure:
  "TestingColl_Find cat (TestName testing) = Inl err \<Longrightarrow>
   toJobtask cat workflow job testing defaultS3 taskID testType serviceName serviceModule
     = Inl (None, Wrap (''find testing: '' @ TestName testing @ '' error'') err)"
  by (simp add: toJobtask_def)

lemma testModuleTasks_error_at:
  "testing \<in> set ts \<Longrightarrow> compile testing = Inl e \<Longrightarrow>
   isError (snd (testModuleTasks compile ts resp))"
proof (induction ts arbitrary: resp)
  case Nil
  then show ?case by simp
next
  case (Cons t ts)
  show ?case
  proof (cases "compile t")
    case (Inl pe)
    then show ?thesis by (cases pe) (simp add: isError_def)
  next
    case (Inr jobTask)
    with Cons.prems have "testing \<in> set ts" by auto
    then have "isError (snd (testModuleTasks compile ts (resp @ [jobTask])))"
      using Cons.prems(2) by (rule Cons.IH)
    with Inr show ?thesis by simp
  qed
qed

lemma testModuleTasks_error:
  "\<exists>testing \<in> set ts. \<exists>e. compile testing = Inl e \<Longrightarrow>
   isError (snd (testModuleTasks compile ts resp))"
  using testModuleTasks_error_at by blast

lemma targetTasks_error_at:
  "testing \<in> set tests \<Longrightarrow> ServiceName_sat testing = ServiceName_tgt target \<Longrightarrow>
   ServiceModule_sat testing = ServiceModule_tgt target \<Longrightarrow> compile testing = Inl e \<Longrightarrow>
   isError (snd (targetTasks compile target tests resp))"
proof (induction tests arbitrary: resp)
  case Nil
  then show ?case by simp
next
  case (Cons t tests)
  show ?case
  proof (cases "ServiceName_sat t \<noteq> ServiceName_tgt target
                 \<or> ServiceModule_sat t \<noteq> ServiceModule_tgt target")
    case True
    with Cons.prems have "testing \<in> set tests" by auto
    then have "isError (snd (targetTasks compile target tests resp))"
      using Cons.prems(2-4) by (rule Cons.IH)
    with True show ?thesis by simp
  next
    case False
    show ?thesis
    proof (cases "compile t")
      case (Inl pe)
      with False show ?thesis by (cases pe) (simp add: isError_def)
    next
      case (Inr jobTask)
      with Cons.prems have "testing \<in> set tests" by auto
      then have "isError (snd (targetTasks compile target tests (resp @ [jobTask])))"
        using Cons.prems(2-4) by (rule Cons.IH)
      with Inr False show ?thesis by simp
    qed
  qed
qed

lemma targetTasks_error:
  "\<exists>testing \<in> set tests.
      ServiceName_sat testing = ServiceName_tgt target
      \<and> ServiceModule_sat testing = ServiceModule_tgt target
      \<and> (\<exists>e. compile testing = Inl e) \<Longrightarrow>
   isError (snd (targetTasks compile target tests resp))"
  using targetTasks_error_at by blast

lemma serviceTestTasks_error:
  "\<exists>target \<in> set targets. \<exists>testing \<in> set tests.
      ServiceName_sat testing = ServiceName_tgt target
      \<and> ServiceModule_sat testing = ServiceModule_tgt target
      \<and> (\<exists>e. compile testing = Inl e) \<Longrightarrow>
   isError (snd (serviceTestTasks compile targets tests resp))"
proof (induction targets arbitrary: resp)
  case Nil
  then show ?case by simp
next
  case (Cons target targets)
  show ?case
  proof (cases "targetTasks compile target tests resp")
    case (Pair resp' r)
    show ?thesis
    proof (cases r)
      case (Some err)
      with Pair show ?thesis by (simp add: isError_def)
    next
      case None
      have "\<not> (\<exists>testing \<in> set tests.
              ServiceName_sat testing = ServiceName_tgt target
              \<and> ServiceModule_sat testing = ServiceModule_tgt target
              \<and> (\<exists>e. compile testing = Inl e))"
        using targetTasks_error [of tests target compile resp] Pair None
        by (auto simp: isError_def)
      with Cons.prems have "\<exists>target \<in> set targets. \<exists>testing \<in> set tests.
          ServiceName_sat testing = ServiceName_tgt target
          \<and> ServiceModule_sat testing = ServiceModule_tgt target
          \<and> (\<exists>e. compile testing = Inl e)"
        by auto
      then have "isError (snd (serviceTestTasks compile targets tests resp'))"
        by (rule Cons.IH)
      with Pair None show ?thesis by simp
    qed
  qed
qed

text \<open>
  The loops of \<open>ToJobs\<close> in closed form: the tasks of the calls before the first call
  that fails, and the error of that call.
\<close>

lemma testModuleTasks_closed:
  "testModuleTasks compile ts resp =
     (resp @ map (\<lambda>t. projr (compile t)) (takeWhile (\<lambda>t. \<not> isl (compile t)) ts),
      case dropWhile (\<lambda>t. \<not> isl (compile t)) ts of
        [] \<Rightarrow> None
      | t # rest \<Rightarrow> Some (snd (projl (compile t))))"
proof (induction ts arbitrary: resp)
  case Nil
  then show ?case by simp
next
  case (Cons t ts)
  show ?case
  proof (cases "compile t")
    case (Inl pe)
    then show ?thesis by (cases pe) simp
  next
    case (Inr jobTask)
    then show ?thesis by (simp add: Cons.IH)
  qed
qed

lemma targetTasks_closed:
  "targetTasks compile target tests resp =
     (resp @ map (\<lambda>t. projr (compile t))
        (takeWhile (\<lambda>t. \<not> isl (compile t))
           (filter (\<lambda>testing. ServiceName_sat testing = ServiceName_tgt target
                             \<and> ServiceModule_sat testing = ServiceModule_tgt target) tests)),
      case dropWhile (\<lambda>t. \<not> isl (compile t))
             (filter (\<lambda>testing. ServiceName_sat testing = ServiceName_tgt target
                             \<and> ServiceModule_sat testing = ServiceModule_tgt target) tests) of
        [] \<Rightarrow> None
      | t # rest \<Rightarrow> Some (snd (projl (compile t))))"
proof (induction tests arbitrary: resp)
  case Nil
  then show ?case by simp
next
  case (Cons t tests)
  show ?case
  proof (cases "ServiceName_sat t = ServiceName_tgt target
                 \<and> ServiceModule_sat t = ServiceModule_tgt target")
    case False
    then show ?thesis using Cons.IH by auto
  next
    case True
    show ?thesis
    proof (cases "compile t")
      case (Inl pe)
      with True show ?thesis by (cases pe) simp
    next
      case (Inr jobTask)
      with True show ?thesis by (simp add: Cons.IH)
    qed
  qed
qed

lemma serviceTestTasks_closed:
  "serviceTestTasks compile targets tests resp =
     (resp @ map (\<lambda>t. projr (compile t))
        (takeWhile (\<lambda>t. \<not> isl (compile t))
           (concat (map (\<lambda>target.
              filter (\<lambda>testing. ServiceName_sat testing = ServiceName_tgt target
                             \<and> ServiceModule_sat testing = ServiceModule_tgt target) tests)
              targets))),
      case dropWhile (\<lambda>t. \<not> isl (compile t))
             (concat (map (\<lambda>target.
                filter (\<lambda>testing. ServiceName_sat testing = ServiceName_tgt target
                             \<and> ServiceModule_sat testing = ServiceModule_tgt target) tests)
                targets)) of
        [] \<Rightarrow> None
      | t # rest \<Rightarrow> Some (snd (projl (compile t))))"
proof (induction targets arbitrary: resp)
  case Nil
  then show ?case by simp
next
  case (Cons target targets)
  define P where "P = (\<lambda>t. \<not> isl (compile t))"
  define xs where "xs = filter (\<lambda>testing. ServiceName_sat testing = ServiceName_tgt target
                             \<and> ServiceModule_sat testing = ServiceModule_tgt target) tests"
  define ys where "ys = concat (map (\<lambda>target.
                filter (\<lambda>testing. ServiceName_sat testing = ServiceName_tgt target
                             \<and> ServiceModule_sat testing = ServiceModule_tgt target) tests)
                targets)"
  have first: "targetTasks compile target tests resp =
     (resp @ map (\<lambda>t. projr (compile t)) (takeWhile P xs),
      case dropWhile P xs of [] \<Rightarrow> None | t # rest \<Rightarrow> Some (snd (projl (compile t))))"
    unfolding P_def xs_def by (rule targetTasks_closed)
  have rest: "serviceTestTasks compile targets tests r =
     (r @ map (\<lambda>t. projr (compile t)) (takeWhile P ys),
      case dropWhile P ys of [] \<Rightarrow> None | t # rest \<Rightarrow> Some (snd (projl (compile t))))" for r
    unfolding P_def ys_def by (rule Cons.IH)
  have goal: "serviceTestTasks compile (target # targets) tests resp =
     (resp @ map (\<lambda>t. projr (compile t)) (takeWhile P (xs @ ys)),
      case dropWhile P (xs @ ys) of [] \<Rightarrow> None
      | t # rest \<Rightarrow> Some (snd (projl (compile t))))"
  proof (cases "\<forall>x \<in> set xs. P x")
    case True
    have a: "dropWhile P xs = []" using True by simp
    have b: "takeWhile P xs = xs" using True by (simp add: takeWhile_eq_all_conv)
    have c: "takeWhile P (xs @ ys) = xs @ takeWhile P ys"
      using True by (intro takeWhile_append2) blast
    have d: "dropWhile P (xs @ ys) = dropWhile P ys"
      using True by (intro dropWhile_append2) blast
    show ?thesis by (simp add: first rest a b c d)
  next
    case False
    then obtain x where x: "x \<in> set xs" "\<not> P x" by blast
    then have tw: "takeWhile P (xs @ ys) = takeWhile P xs"
      and dw: "dropWhile P (xs @ ys) = dropWhile P xs @ ys"
      by (simp_all add: takeWhile_append1 dropWhile_append1)
    from x have "dropWhile P xs \<noteq> []" by (auto simp: dropWhile_eq_Nil_conv)
    then obtain y zs where d: "dropWhile P xs = y # zs" by (cases "dropWhile P xs") auto
    show ?thesis by (simp add: first tw dw d)
  qed
  show ?case using goal unfolding P_def xs_def ys_def by simp
qed

lemma first_failure:
  assumes "\<forall>t \<in> set pre. \<not> isl (compile t)" and "compile testing = Inl (partial, err)"
  shows "takeWhile (\<lambda>t. \<not> isl (compile t)) (pre @ testing # post) = pre"
    and "dropWhile (\<lambda>t. \<not> isl (compile t)) (pre @ testing # post) = testing # post"
  using assms by (simp_all add: takeWhile_append2 dropWhile_append2)

lemma presetTestModule_found:
  "TestingColl_Find cat (TestName testing) = Inr testingInfo \<Longrightarrow>
   presetTestModule cat testing =
     testing\<lparr>Repos := mergeRepos cat (Repos_info testingInfo) (Repos testing),
             KeyVals := renderKeyVals cat (KeyVals testing) (Envs_pre (PreTestOf testingInfo))\<rparr>"
  by (simp add: presetTestModule_def)

lemma ToJobs_product_form:
  assumes "IToi_testing cat (Spec job) = Inr spec"
    and "S3StorageColl_FindDefault cat = Inr defaultS3"
    and "TestType spec = ProductTestType"
    and "snd (testModuleTasks
           (\<lambda>testing. toJobtask cat workflow job testing defaultS3 taskID '''' '''' '''')
           (TestModules spec) []) = Some err"
  shows "ToJobs cat workflow job taskID =
           testModuleTasks
             (\<lambda>testing. toJobtask cat workflow job testing defaultS3 taskID '''' '''' '''')
             (TestModules spec) []"
  using assms by (auto simp: ToJobs_def split: prod.splits option.splits)

lemma ToJobs_service_form:
  assumes "IToi_testing cat (Spec job) = Inr spec"
    and "S3StorageColl_FindDefault cat = Inr defaultS3"
    and "TestType spec = ServiceTestType"
    and "Source spec = SourceFromJob \<longrightarrow>
           getOriginReferedJobTargets cat workflow
             (if OriginJobName spec \<noteq> '''' then OriginJobName spec else JobName spec)
           = Inr targets"
    and "Source spec \<noteq> SourceFromJob \<longrightarrow> targets = TargetServices spec"
  shows "ToJobs cat workflow job taskID =
           serviceTestTasks
             (\<lambda>testing. toJobtask cat workflow job (TestModule_sat testing) defaultS3 taskID
                           (TestType spec) (ServiceName_sat testing) (ServiceModule_sat testing))
             targets (ServiceAndTests spec) []"
  using assms testType_distinct by (auto simp: ToJobs_def Let_def)

lemma ToJobs_product_exact:
  assumes dec: "IToi_testing cat (Spec job) = Inr spec"
    and s3: "S3StorageColl_FindDefault cat = Inr defaultS3"
    and ty: "TestType spec = ProductTestType"
    and split: "TestModules spec = pre @ testing # post"
    and ok: "\<forall>t \<in> set pre. \<not> isl (toJobtask cat workflow job t defaultS3 taskID '''' '''' '''')"
    and fail: "TestingColl_Find cat (TestName testing) = Inl err"
  shows "ToJobs cat workflow job taskID =
           (map (\<lambda>t. projr (toJobtask cat workflow job t defaultS3 taskID '''' '''' '''')) pre,
            Some (Wrap (''find testing: '' @ TestName testing @ '' error'') err))"
proof -
  let ?compile = "\<lambda>testing. toJobtask cat workflow job testing defaultS3 taskID '''' '''' ''''"
  have f: "?compile testing = Inl (None, Wrap (''find testing: '' @ TestName testing @ '' error'') err)"
    using fail by (rule toJobtask_lookup_failure)
  have r: "testModuleTasks ?compile (TestModules spec) [] =
             (map (\<lambda>t. projr (?compile t)) pre,
              Some (Wrap (''find testing: '' @ TestName testing @ '' error'') err))"
    unfolding testModuleTasks_closed split
    using first_failure [of pre ?compile testing None _ post, OF ok f] f by simp
  show ?thesis
    using ToJobs_product_form [OF dec s3 ty, of workflow taskID] r by simp
qed

lemma ToJobs_service_exact:
  assumes dec: "IToi_testing cat (Spec job) = Inr spec"
    and s3: "S3StorageColl_FindDefault cat = Inr defaultS3"
    and ty: "TestType spec = ServiceTestType"
    and byJob: "Source spec = SourceFromJob \<longrightarrow>
           getOriginReferedJobTargets cat workflow
             (if OriginJobName spec \<noteq> '''' then OriginJobName spec else JobName spec)
           = Inr targets"
    and own: "Source spec \<noteq> SourceFromJob \<longrightarrow> targets = TargetServices spec"
    and split: "concat (map (\<lambda>target.
                  filter (\<lambda>testing. ServiceName_sat testing = ServiceName_tgt target
                                   \<and> ServiceModule_sat testing = ServiceModule_tgt target)
                    (ServiceAndTests spec)) targets) = pre @ testing # post"
    and ok: "\<forall>t \<in> set pre. \<not> isl (toJobtask cat workflow job (TestModule_sat t) defaultS3 taskID
                           (TestType spec) (ServiceName_sat t) (ServiceModule_sat t))"
    and fail: "TestingColl_Find cat (TestName (TestModule_sat testing)) = Inl err"
  shows "ToJobs cat workflow job taskID =
           (map (\<lambda>t. projr (toJobtask cat workflow job (TestModule_sat t) defaultS3 taskID
                           (TestType spec) (ServiceName_sat t) (ServiceModule_sat t))) pre,
            Some (Wrap (''find testing: '' @ TestName (TestModule_sat testing) @ '' error'') err))"
proof -
  let ?compile = "\<lambda>testing. toJobtask cat workflow job (TestModule_sat testing) defaultS3 taskID
                           (TestType spec) (ServiceName_sat testing) (ServiceModule_sat testing)"
  have f: "?compile testing
             = Inl (None, Wrap (''find testing: '' @ TestName (TestModule_sat testing) @ '' error'') err)"
    using fail by (rule toJobtask_lookup_failure)
  have r: "serviceTestTasks ?compile targets (ServiceAndTests spec) [] =
             (map (\<lambda>t. projr (?compile t)) pre,
              Some (Wrap (''find testing: '' @ TestName (TestModule_sat testing) @ '' error'') err))"
    unfolding serviceTestTasks_closed split
    using first_failure [of pre ?compile testing None _ post, OF ok f] f by simp
  show ?thesis
    using ToJobs_service_form [OF dec s3 ty byJob own, of taskID] r by simp
qed

lemma ToJobs_service_error:
  assumes dec: "IToi_testing cat (Spec job) = Inr spec"
    and ty: "TestType spec = ServiceTestType"
    and byJob: "Source spec = SourceFromJob \<longrightarrow>
           getOriginReferedJobTargets cat workflow
             (if OriginJobName spec \<noteq> '''' then OriginJobName spec else JobName spec)
           = Inr targets"
    and own: "Source spec \<noteq> SourceFromJob \<longrightarrow> targets = TargetServices spec"
    and ex: "\<exists>target \<in> set targets. \<exists>testing \<in> set (ServiceAndTests spec).
              ServiceName_sat testing = ServiceName_tgt target
              \<and> ServiceModule_sat testing = ServiceModule_tgt target
              \<and> (\<exists>err. TestingColl_Find cat (TestName (TestModule_sat testing)) = Inl err)"
  shows "isError (snd (ToJobs cat workflow job taskID))"
proof (cases "S3StorageColl_FindDefault cat")
  case (Inl e)
  with dec show ?thesis by (simp add: ToJobs_def isError_def)
next
  case (Inr defaultS3)
  let ?compile = "\<lambda>testing. toJobtask cat workflow job (TestModule_sat testing) defaultS3 taskID
                              (TestType spec) (ServiceName_sat testing)
                              (ServiceModule_sat testing)"
  have "\<exists>target \<in> set targets. \<exists>testing \<in> set (ServiceAndTests spec).
            ServiceName_sat testing = ServiceName_tgt target
            \<and> ServiceModule_sat testing = ServiceModule_tgt target
            \<and> (\<exists>e. ?compile testing = Inl e)"
    using ex toJobtask_lookup_failure by blast
  then have "isError (snd (serviceTestTasks ?compile targets (ServiceAndTests spec) []))"
    by (rule serviceTestTasks_error)
  then show ?thesis
    using ToJobs_service_form [OF dec Inr ty byJob own, of taskID] by simp
qed

text \<open>
  Claim C8. When the payload decodes, \<open>SetPreset\<close> returns a spec and no error whatever
  the catalog answers: an entry whose lookup fails is left as it was, and an entry whose
  lookup succeeds carries the merged repositories and variables. In \<open>toJobtask\<close> the same
  failure is returned as an error, with no task, and \<open>ToJobs\<close> returns an error whenever a
  suite that it compiles has a failing lookup: a test module of a product-level job, or a
  service-and-test entry that matches a target of a service-level job, the targets being
  the job's own or those resolved from the referenced job. When the calls before the
  failing one succeed, \<open>ToJobs\<close> returns exactly their tasks together with the error of
  the failed lookup, and compiles nothing after it.
\<close>

theorem catalog_lookup_failure_policy:
  "(IToi_testing cat (Spec job) = Inr spec \<longrightarrow>
      (\<exists>spec'. SetPreset cat workflow job = Inr spec'
         \<and> (TestType spec = ProductTestType \<longrightarrow>
              length (TestModules spec') = length (TestModules spec)
              \<and> (\<forall>i < length (TestModules spec).
                    ((\<exists>err. TestingColl_Find cat (TestName (TestModules spec ! i)) = Inl err)
                       \<longrightarrow> TestModules spec' ! i = TestModules spec ! i)
                    \<and> (\<forall>testingInfo.
                         TestingColl_Find cat (TestName (TestModules spec ! i)) = Inr testingInfo
                         \<longrightarrow> TestModules spec' ! i =
                               (TestModules spec ! i)\<lparr>Repos := mergeRepos cat (Repos_info testingInfo) (Repos (TestModules spec ! i)),
                             KeyVals := renderKeyVals cat (KeyVals (TestModules spec ! i))
                                          (Envs_pre (PreTestOf testingInfo))\<rparr>)))
         \<and> (TestType spec = ServiceTestType \<longrightarrow>
              length (ServiceAndTests spec') = length (ServiceAndTests spec)
              \<and> (\<forall>i < length (ServiceAndTests spec).
                    ((\<exists>err. TestingColl_Find cat
                              (TestName (TestModule_sat (ServiceAndTests spec ! i))) = Inl err)
                       \<longrightarrow> ServiceAndTests spec' ! i = ServiceAndTests spec ! i)
                    \<and> (\<forall>testingInfo.
                         TestingColl_Find cat (TestName (TestModule_sat (ServiceAndTests spec ! i)))
                           = Inr testingInfo
                         \<longrightarrow> ServiceAndTests spec' ! i =
                               (ServiceAndTests spec ! i)\<lparr>TestModule_sat :=
                                 (TestModule_sat (ServiceAndTests spec ! i))\<lparr>Repos := mergeRepos cat (Repos_info testingInfo) (Repos (TestModule_sat (ServiceAndTests spec ! i))),
                             KeyVals := renderKeyVals cat (KeyVals (TestModule_sat (ServiceAndTests spec ! i)))
                                          (Envs_pre (PreTestOf testingInfo))\<rparr>\<rparr>)))))
   \<and> (TestingColl_Find cat (TestName testing) = Inl err \<longrightarrow>
        toJobtask cat workflow job testing defaultS3 taskID testType serviceName serviceModule
          = Inl (None, Wrap (''find testing: '' @ TestName testing @ '' error'') err))
   \<and> (IToi_testing cat (Spec job) = Inr spec \<and> TestType spec = ProductTestType
        \<and> (\<exists>testing \<in> set (TestModules spec).
              \<exists>err. TestingColl_Find cat (TestName testing) = Inl err)
      \<longrightarrow> isError (snd (ToJobs cat workflow job taskID)))
   \<and> (IToi_testing cat (Spec job) = Inr spec \<and> TestType spec = ServiceTestType
        \<and> (Source spec = SourceFromJob \<longrightarrow>
             getOriginReferedJobTargets cat workflow
               (if OriginJobName spec \<noteq> '''' then OriginJobName spec else JobName spec)
             = Inr targets)
        \<and> (Source spec \<noteq> SourceFromJob \<longrightarrow> targets = TargetServices spec)
        \<and> (\<exists>target \<in> set targets. \<exists>testing \<in> set (ServiceAndTests spec).
              ServiceName_sat testing = ServiceName_tgt target
              \<and> ServiceModule_sat testing = ServiceModule_tgt target
              \<and> (\<exists>err. TestingColl_Find cat (TestName (TestModule_sat testing)) = Inl err))
      \<longrightarrow> isError (snd (ToJobs cat workflow job taskID)))
   \<and> (IToi_testing cat (Spec job) = Inr spec
        \<and> S3StorageColl_FindDefault cat = Inr defaultS3
        \<and> TestType spec = ProductTestType
        \<and> TestModules spec = pre @ testing # post
        \<and> (\<forall>t \<in> set pre. \<not> isl (toJobtask cat workflow job t defaultS3 taskID '''' '''' ''''))
        \<and> TestingColl_Find cat (TestName testing) = Inl err
      \<longrightarrow> ToJobs cat workflow job taskID =
            (map (\<lambda>t. projr (toJobtask cat workflow job t defaultS3 taskID '''' '''' '''')) pre,
             Some (Wrap (''find testing: '' @ TestName testing @ '' error'') err)))
   \<and> (IToi_testing cat (Spec job) = Inr spec
        \<and> S3StorageColl_FindDefault cat = Inr defaultS3
        \<and> TestType spec = ServiceTestType
        \<and> (Source spec = SourceFromJob \<longrightarrow>
             getOriginReferedJobTargets cat workflow
               (if OriginJobName spec \<noteq> '''' then OriginJobName spec else JobName spec)
             = Inr targets)
        \<and> (Source spec \<noteq> SourceFromJob \<longrightarrow> targets = TargetServices spec)
        \<and> concat (map (\<lambda>target.
                    filter (\<lambda>testing. ServiceName_sat testing = ServiceName_tgt target
                                     \<and> ServiceModule_sat testing = ServiceModule_tgt target)
                      (ServiceAndTests spec)) targets) = before @ entry # after
        \<and> (\<forall>t \<in> set before. \<not> isl (toJobtask cat workflow job (TestModule_sat t) defaultS3 taskID (TestType spec)
                              (ServiceName_sat t) (ServiceModule_sat t)))
        \<and> TestingColl_Find cat (TestName (TestModule_sat entry)) = Inl err
      \<longrightarrow> ToJobs cat workflow job taskID =
            (map (\<lambda>t. projr (toJobtask cat workflow job (TestModule_sat t) defaultS3 taskID (TestType spec)
                              (ServiceName_sat t) (ServiceModule_sat t))) before,
             Some (Wrap (''find testing: '' @ TestName (TestModule_sat entry) @ '' error'')
                     err)))"
proof (intro conjI impI)
  assume dec: "IToi_testing cat (Spec job) = Inr spec"
  from SetPreset_succeeds [OF dec] obtain spec' where s: "SetPreset cat workflow job = Inr spec'"
    by blast
  have p: "TestType spec = ProductTestType \<Longrightarrow>
             TestModules spec' = map (presetTestModule cat) (TestModules spec)"
    using SetPreset_product [OF dec, of workflow] s by auto
  have q: "TestType spec = ServiceTestType \<Longrightarrow>
             ServiceAndTests spec' =
               map (\<lambda>testing. testing\<lparr>TestModule_sat := presetTestModule cat (TestModule_sat testing)\<rparr>)
                 (ServiceAndTests spec)"
    using SetPreset_service [OF dec, of workflow] s by auto
  show "\<exists>spec'. SetPreset cat workflow job = Inr spec'
         \<and> (TestType spec = ProductTestType \<longrightarrow>
              length (TestModules spec') = length (TestModules spec)
              \<and> (\<forall>i < length (TestModules spec).
                    ((\<exists>err. TestingColl_Find cat (TestName (TestModules spec ! i)) = Inl err)
                       \<longrightarrow> TestModules spec' ! i = TestModules spec ! i)
                    \<and> (\<forall>testingInfo.
                         TestingColl_Find cat (TestName (TestModules spec ! i)) = Inr testingInfo
                         \<longrightarrow> TestModules spec' ! i =
                               (TestModules spec ! i)\<lparr>Repos := mergeRepos cat (Repos_info testingInfo) (Repos (TestModules spec ! i)),
                             KeyVals := renderKeyVals cat (KeyVals (TestModules spec ! i))
                                          (Envs_pre (PreTestOf testingInfo))\<rparr>)))
         \<and> (TestType spec = ServiceTestType \<longrightarrow>
              length (ServiceAndTests spec') = length (ServiceAndTests spec)
              \<and> (\<forall>i < length (ServiceAndTests spec).
                    ((\<exists>err. TestingColl_Find cat
                              (TestName (TestModule_sat (ServiceAndTests spec ! i))) = Inl err)
                       \<longrightarrow> ServiceAndTests spec' ! i = ServiceAndTests spec ! i)
                    \<and> (\<forall>testingInfo.
                         TestingColl_Find cat (TestName (TestModule_sat (ServiceAndTests spec ! i)))
                           = Inr testingInfo
                         \<longrightarrow> ServiceAndTests spec' ! i =
                               (ServiceAndTests spec ! i)\<lparr>TestModule_sat :=
                                 (TestModule_sat (ServiceAndTests spec ! i))\<lparr>Repos := mergeRepos cat (Repos_info testingInfo) (Repos (TestModule_sat (ServiceAndTests spec ! i))),
                             KeyVals := renderKeyVals cat (KeyVals (TestModule_sat (ServiceAndTests spec ! i)))
                                          (Envs_pre (PreTestOf testingInfo))\<rparr>\<rparr>)))"
  proof (intro exI [of _ spec'] conjI impI allI)
    show "SetPreset cat workflow job = Inr spec'" by (rule s)
  next
    assume "TestType spec = ProductTestType"
    then show "length (TestModules spec') = length (TestModules spec)" by (simp add: p)
  next
    fix i
    assume "TestType spec = ProductTestType" "i < length (TestModules spec)"
      "\<exists>err. TestingColl_Find cat (TestName (TestModules spec ! i)) = Inl err"
    then show "TestModules spec' ! i = TestModules spec ! i"
      by (auto simp: p presetTestModule_skip)
  next
    fix i testingInfo
    assume "TestType spec = ProductTestType" "i < length (TestModules spec)"
      "TestingColl_Find cat (TestName (TestModules spec ! i)) = Inr testingInfo"
    then show "TestModules spec' ! i =
                 (TestModules spec ! i)\<lparr>Repos := mergeRepos cat (Repos_info testingInfo) (Repos (TestModules spec ! i)),
                             KeyVals := renderKeyVals cat (KeyVals (TestModules spec ! i))
                                          (Envs_pre (PreTestOf testingInfo))\<rparr>"
      by (simp add: p presetTestModule_found)
  next
    assume "TestType spec = ServiceTestType"
    then show "length (ServiceAndTests spec') = length (ServiceAndTests spec)" by (simp add: q)
  next
    fix i
    assume "TestType spec = ServiceTestType" "i < length (ServiceAndTests spec)"
      "\<exists>err. TestingColl_Find cat (TestName (TestModule_sat (ServiceAndTests spec ! i))) = Inl err"
    then show "ServiceAndTests spec' ! i = ServiceAndTests spec ! i"
      by (auto simp: q presetTestModule_skip)
  next
    fix i testingInfo
    assume "TestType spec = ServiceTestType" "i < length (ServiceAndTests spec)"
      "TestingColl_Find cat (TestName (TestModule_sat (ServiceAndTests spec ! i))) = Inr testingInfo"
    then show "ServiceAndTests spec' ! i =
                 (ServiceAndTests spec ! i)\<lparr>TestModule_sat :=
                   (TestModule_sat (ServiceAndTests spec ! i))\<lparr>Repos := mergeRepos cat (Repos_info testingInfo) (Repos (TestModule_sat (ServiceAndTests spec ! i))),
                             KeyVals := renderKeyVals cat (KeyVals (TestModule_sat (ServiceAndTests spec ! i)))
                                          (Envs_pre (PreTestOf testingInfo))\<rparr>\<rparr>"
      by (simp add: q presetTestModule_found)
  qed
next
  assume "TestingColl_Find cat (TestName testing) = Inl err"
  then show "toJobtask cat workflow job testing defaultS3 taskID testType serviceName serviceModule
          = Inl (None, Wrap (''find testing: '' @ TestName testing @ '' error'') err)"
    by (rule toJobtask_lookup_failure)
next
  assume a: "IToi_testing cat (Spec job) = Inr spec \<and> TestType spec = ProductTestType
        \<and> (\<exists>testing \<in> set (TestModules spec).
              \<exists>err. TestingColl_Find cat (TestName testing) = Inl err)"
  show "isError (snd (ToJobs cat workflow job taskID))"
  proof (cases "S3StorageColl_FindDefault cat")
    case (Inl e)
    with a show ?thesis by (simp add: ToJobs_def isError_def)
  next
    case (Inr defaultS3)
    let ?compile = "\<lambda>testing. toJobtask cat workflow job testing defaultS3 taskID '''' '''' ''''"
    have "\<exists>testing \<in> set (TestModules spec). \<exists>e. ?compile testing = Inl e"
      using a toJobtask_lookup_failure by blast
    then have "isError (snd (testModuleTasks ?compile (TestModules spec) []))"
      by (rule testModuleTasks_error)
    then show ?thesis
      using a Inr by (auto simp: ToJobs_def isError_def split: prod.splits option.splits)
  qed
next
  assume a: "IToi_testing cat (Spec job) = Inr spec \<and> TestType spec = ServiceTestType
        \<and> (Source spec = SourceFromJob \<longrightarrow>
             getOriginReferedJobTargets cat workflow
               (if OriginJobName spec \<noteq> '''' then OriginJobName spec else JobName spec)
             = Inr targets)
        \<and> (Source spec \<noteq> SourceFromJob \<longrightarrow> targets = TargetServices spec)
        \<and> (\<exists>target \<in> set targets. \<exists>testing \<in> set (ServiceAndTests spec).
              ServiceName_sat testing = ServiceName_tgt target
              \<and> ServiceModule_sat testing = ServiceModule_tgt target
              \<and> (\<exists>err. TestingColl_Find cat (TestName (TestModule_sat testing)) = Inl err))"
  then show "isError (snd (ToJobs cat workflow job taskID))"
    using ToJobs_service_error [of cat job spec workflow targets taskID] by blast
next
  assume a: "IToi_testing cat (Spec job) = Inr spec
        \<and> S3StorageColl_FindDefault cat = Inr defaultS3
        \<and> TestType spec = ProductTestType
        \<and> TestModules spec = pre @ testing # post
        \<and> (\<forall>t \<in> set pre. \<not> isl (toJobtask cat workflow job t defaultS3 taskID '''' '''' ''''))
        \<and> TestingColl_Find cat (TestName testing) = Inl err"
  then show "ToJobs cat workflow job taskID =
            (map (\<lambda>t. projr (toJobtask cat workflow job t defaultS3 taskID '''' '''' '''')) pre,
             Some (Wrap (''find testing: '' @ TestName testing @ '' error'') err))"
    using ToJobs_product_exact [of cat job spec defaultS3 pre testing post workflow taskID err]
    by blast
next
  assume a: "IToi_testing cat (Spec job) = Inr spec
        \<and> S3StorageColl_FindDefault cat = Inr defaultS3
        \<and> TestType spec = ServiceTestType
        \<and> (Source spec = SourceFromJob \<longrightarrow>
             getOriginReferedJobTargets cat workflow
               (if OriginJobName spec \<noteq> '''' then OriginJobName spec else JobName spec)
             = Inr targets)
        \<and> (Source spec \<noteq> SourceFromJob \<longrightarrow> targets = TargetServices spec)
        \<and> concat (map (\<lambda>target.
                    filter (\<lambda>testing. ServiceName_sat testing = ServiceName_tgt target
                                     \<and> ServiceModule_sat testing = ServiceModule_tgt target)
                      (ServiceAndTests spec)) targets) = before @ entry # after
        \<and> (\<forall>t \<in> set before. \<not> isl (toJobtask cat workflow job (TestModule_sat t) defaultS3 taskID (TestType spec)
                              (ServiceName_sat t) (ServiceModule_sat t)))
        \<and> TestingColl_Find cat (TestName (TestModule_sat entry)) = Inl err"
  then show "ToJobs cat workflow job taskID =
            (map (\<lambda>t. projr (toJobtask cat workflow job (TestModule_sat t) defaultS3 taskID (TestType spec)
                              (ServiceName_sat t) (ServiceModule_sat t))) before,
             Some (Wrap (''find testing: '' @ TestName (TestModule_sat entry) @ '' error'')
                     err))"
    using ToJobs_service_exact
      [of cat job spec defaultS3 workflow targets before entry after taskID err]
    by blast
qed

theorem catalog_lookup_failure_policy_witness:
  "IToi_testing exampleCatalog (Spec (testJob ''test2'' (productSpec [''t1'', ''zz''])))
     = Inr (productSpec [''t1'', ''zz''])
   \<and> S3StorageColl_FindDefault exampleCatalog = Inr \<lparr>S3ID = ''default''\<rparr>
   \<and> TestType (productSpec [''t1'', ''zz'']) = ProductTestType
   \<and> TestModules (productSpec [''t1'', ''zz'']) = [exampleModule ''t1''] @ exampleModule ''zz'' # []
   \<and> TestingColl_Find exampleCatalog (TestName (exampleModule ''t1''))
       = Inr (exampleTesting ''t1'' ''o1'')
   \<and> TestingColl_Find exampleCatalog (TestName (exampleModule ''zz''))
       = Inl (Err ''no documents in result'')
   \<and> (\<exists>spec'. SetPreset exampleCatalog exampleWorkflow
                  (testJob ''test2'' (productSpec [''t1'', ''zz''])) = Inr spec'
               \<and> TestModules spec' ! 0
                   = (exampleModule ''t1'')
                       \<lparr>Repos := [\<lparr>RepoOwner = ''koderover'', RepoName = ''t1'', Branch = ''main''\<rparr>],
                        KeyVals := [\<lparr>Key = ''LEVEL'', Value = ''1'', IsCredential = False\<rparr>]\<rparr>
               \<and> TestModules spec' ! 0 \<noteq> exampleModule ''t1''
               \<and> TestModules spec' ! 1 = exampleModule ''zz'')
   \<and> toJobtask exampleCatalog exampleWorkflow (testJob ''test2'' (productSpec [''t1'', ''zz'']))
        (exampleModule ''zz'') \<lparr>S3ID = ''default''\<rparr> 1 '''' '''' ''''
       = Inl (None, Wrap ''find testing: zz error'' (Err ''no documents in result''))
   \<and> isError (snd (ToJobs exampleCatalog exampleWorkflow
                     (testJob ''test2'' (productSpec [''t1'', ''zz''])) 1))
   \<and> ToJobs exampleCatalog exampleWorkflow (testJob ''test2'' (productSpec [''t1'', ''zz''])) 1
       = ([projr (toJobtask exampleCatalog exampleWorkflow
                    (testJob ''test2'' (productSpec [''t1'', ''zz'']))
                    (exampleModule ''t1'') \<lparr>S3ID = ''default''\<rparr> 1 '''' '''' '''')],
          Some (Wrap ''find testing: zz error'' (Err ''no documents in result'')))
   \<and> IToi_testing exampleCatalog (Spec (testJob ''test1'' (missingSuiteSpec ''build1'')))
       = Inr (missingSuiteSpec ''build1'')
   \<and> TestType (missingSuiteSpec ''build1'') = ServiceTestType
   \<and> Source (missingSuiteSpec ''build1'') = SourceFromJob
   \<and> getOriginReferedJobTargets exampleCatalog exampleWorkflow ''build1''
       = Inr [\<lparr>ServiceName_tgt = ''svcA'', ServiceModule_tgt = ''modA''\<rparr>,
              \<lparr>ServiceName_tgt = ''svcB'', ServiceModule_tgt = ''modB''\<rparr>]
   \<and> ToJobs exampleCatalog exampleWorkflow (testJob ''test1'' (missingSuiteSpec ''build1'')) 1
       = ([projr (toJobtask exampleCatalog exampleWorkflow
                    (testJob ''test1'' (missingSuiteSpec ''build1''))
                    (exampleModule ''t1'') \<lparr>S3ID = ''default''\<rparr> 1 ServiceTestType
                    ''svcA'' ''modA'')],
          Some (Wrap ''find testing: zz error'' (Err ''no documents in result'')))
   \<and> isError (snd (ToJobs exampleCatalog exampleWorkflow
                     (testJob ''test1'' (missingSuiteSpec ''build1'')) 1))"
proof -
  let ?job = "testJob ''test2'' (productSpec [''t1'', ''zz''])"
  let ?spec = "productSpec [''t1'', ''zz'']"
  let ?s3 = "\<lparr>S3ID = ''default''\<rparr>"
  let ?jobS = "testJob ''test1'' (missingSuiteSpec ''build1'')"
  let ?specS = "missingSuiteSpec ''build1''"
  let ?targets = "[\<lparr>ServiceName_tgt = ''svcA'', ServiceModule_tgt = ''modA''\<rparr>,
                   \<lparr>ServiceName_tgt = ''svcB'', ServiceModule_tgt = ''modB''\<rparr>]"
  let ?e1 = "\<lparr>ServiceName_sat = ''svcA'', ServiceModule_sat = ''modA'',
              TestModule_sat = exampleModule ''t1''\<rparr>"
  let ?e2 = "\<lparr>ServiceName_sat = ''svcB'', ServiceModule_sat = ''modB'',
              TestModule_sat = exampleModule ''zz''\<rparr>"
  note T = catalog_lookup_failure_policy [where cat = exampleCatalog and job = ?job
      and spec = ?spec and workflow = exampleWorkflow and testing = "exampleModule ''zz''"
      and err = "Err ''no documents in result''" and ?defaultS3.0 = ?s3
      and taskID = 1 and testType = "''''" and serviceName = "''''" and serviceModule = "''''"
      and pre = "[exampleModule ''t1'']" and post = "[]"]
  note S = catalog_lookup_failure_policy [where cat = exampleCatalog and job = ?jobS
      and spec = ?specS and workflow = exampleWorkflow and testing = "exampleModule ''zz''"
      and err = "Err ''no documents in result''" and ?defaultS3.0 = ?s3
      and taskID = 1 and targets = ?targets and before = "[?e1]" and entry = ?e2
      and after = "[]"]
  have d: "IToi_testing exampleCatalog (Spec ?job) = Inr ?spec"
    by (simp add: exampleCatalog_def testJob_def)
  have s3: "S3StorageColl_FindDefault exampleCatalog = Inr ?s3"
    by (simp add: exampleCatalog_def)
  have t: "TestType ?spec = ProductTestType" by (simp add: productSpec_def)
  have mem: "exampleModule ''zz'' \<in> set (TestModules ?spec)" by (simp add: productSpec_def)
  have sp: "TestModules ?spec = [exampleModule ''t1''] @ exampleModule ''zz'' # []"
    by (simp add: productSpec_def)
  have idx: "TestModules ?spec ! 0 = exampleModule ''t1''"
    "TestModules ?spec ! 1 = exampleModule ''zz''"
    "0 < length (TestModules ?spec)" "1 < length (TestModules ?spec)"
    "TestModules ?spec ! Suc 0 = exampleModule ''zz''"
    by (simp_all add: productSpec_def)
  have f1: "TestingColl_Find exampleCatalog (TestName (exampleModule ''t1''))
       = Inr (exampleTesting ''t1'' ''o1'')"
    by (simp add: exampleCatalog_def exampleModule_def)
  have l: "TestingColl_Find exampleCatalog (TestName (exampleModule ''zz''))
       = Inl (Err ''no documents in result'')"
    by (simp add: exampleCatalog_def exampleModule_def)
  have merged: "(exampleModule ''t1'')
           \<lparr>Repos := mergeRepos exampleCatalog (Repos_info (exampleTesting ''t1'' ''o1''))
                       (Repos (exampleModule ''t1'')),
            KeyVals := renderKeyVals exampleCatalog (KeyVals (exampleModule ''t1''))
                         (Envs_pre (PreTestOf (exampleTesting ''t1'' ''o1'')))\<rparr>
         = (exampleModule ''t1'')
             \<lparr>Repos := [\<lparr>RepoOwner = ''koderover'', RepoName = ''t1'', Branch = ''main''\<rparr>],
              KeyVals := [\<lparr>Key = ''LEVEL'', Value = ''1'', IsCredential = False\<rparr>]\<rparr>"
    by (simp add: exampleCatalog_def exampleModule_def exampleTesting_def)
  have differs: "(exampleModule ''t1'')
             \<lparr>Repos := [\<lparr>RepoOwner = ''koderover'', RepoName = ''t1'', Branch = ''main''\<rparr>],
              KeyVals := [\<lparr>Key = ''LEVEL'', Value = ''1'', IsCredential = False\<rparr>]\<rparr>
           \<noteq> exampleModule ''t1''"
    by (simp add: exampleModule_def)
  from conjunct1 [OF T] d obtain spec' where
    sp': "SetPreset exampleCatalog exampleWorkflow ?job = Inr spec'"
    and pr: "TestType ?spec = ProductTestType \<longrightarrow>
              length (TestModules spec') = length (TestModules ?spec)
              \<and> (\<forall>i < length (TestModules ?spec).
                    ((\<exists>err. TestingColl_Find exampleCatalog (TestName (TestModules ?spec ! i)) = Inl err)
                       \<longrightarrow> TestModules spec' ! i = TestModules ?spec ! i)
                    \<and> (\<forall>testingInfo.
                         TestingColl_Find exampleCatalog (TestName (TestModules ?spec ! i))
                           = Inr testingInfo
                         \<longrightarrow> TestModules spec' ! i =
                               (TestModules ?spec ! i)\<lparr>Repos := mergeRepos exampleCatalog (Repos_info testingInfo) (Repos (TestModules ?spec ! i)),
                             KeyVals := renderKeyVals exampleCatalog (KeyVals (TestModules ?spec ! i))
                                          (Envs_pre (PreTestOf testingInfo))\<rparr>))"
    by blast
  have A: "\<forall>i < length (TestModules ?spec).
                    ((\<exists>err. TestingColl_Find exampleCatalog (TestName (TestModules ?spec ! i)) = Inl err)
                       \<longrightarrow> TestModules spec' ! i = TestModules ?spec ! i)
                    \<and> (\<forall>testingInfo.
                         TestingColl_Find exampleCatalog (TestName (TestModules ?spec ! i))
                           = Inr testingInfo
                         \<longrightarrow> TestModules spec' ! i =
                               (TestModules ?spec ! i)\<lparr>Repos := mergeRepos exampleCatalog (Repos_info testingInfo) (Repos (TestModules ?spec ! i)),
                             KeyVals := renderKeyVals exampleCatalog (KeyVals (TestModules ?spec ! i))
                                          (Envs_pre (PreTestOf testingInfo))\<rparr>)"
    using pr t by blast
  have e0: "TestModules spec' ! 0
             = (exampleModule ''t1'')
                 \<lparr>Repos := [\<lparr>RepoOwner = ''koderover'', RepoName = ''t1'', Branch = ''main''\<rparr>],
                  KeyVals := [\<lparr>Key = ''LEVEL'', Value = ''1'', IsCredential = False\<rparr>]\<rparr>"
    using conjunct2 [OF A [rule_format, OF idx(3)], rule_format, of "exampleTesting ''t1'' ''o1''"]
      f1 merged
    by (simp add: idx(1))
  have e1: "TestModules spec' ! 1 = exampleModule ''zz''"
    using conjunct1 [OF A [rule_format, OF idx(4)]] l
    by (simp add: idx(5))
  have a: "\<exists>spec'. SetPreset exampleCatalog exampleWorkflow ?job = Inr spec'
               \<and> TestModules spec' ! 0
                   = (exampleModule ''t1'')
                       \<lparr>Repos := [\<lparr>RepoOwner = ''koderover'', RepoName = ''t1'', Branch = ''main''\<rparr>],
                        KeyVals := [\<lparr>Key = ''LEVEL'', Value = ''1'', IsCredential = False\<rparr>]\<rparr>
               \<and> TestModules spec' ! 0 \<noteq> exampleModule ''t1''
               \<and> TestModules spec' ! 1 = exampleModule ''zz''"
    using sp' e0 e1 differs by auto
  from conjunct1 [OF conjunct2 [OF T]] l
  have b: "toJobtask exampleCatalog exampleWorkflow ?job
        (exampleModule ''zz'') ?s3 1 '''' '''' ''''
       = Inl (None, Wrap ''find testing: zz error'' (Err ''no documents in result''))"
    by (simp add: exampleModule_def)
  from conjunct1 [OF conjunct2 [OF conjunct2 [OF T]]] d t mem l
  have c: "isError (snd (ToJobs exampleCatalog exampleWorkflow ?job 1))"
    by blast
  have ok1: "\<forall>t \<in> set [exampleModule ''t1''].
               \<not> isl (toJobtask exampleCatalog exampleWorkflow ?job t ?s3 1 '''' '''' '''')"
    by (simp add: toJobtask_def Let_def cacheProperties_def job_defs)
  from conjunct1 [OF conjunct2 [OF conjunct2 [OF conjunct2 [OF conjunct2 [OF T]]]]]
    d s3 t sp ok1 l
  have ex: "ToJobs exampleCatalog exampleWorkflow ?job 1
       = ([projr (toJobtask exampleCatalog exampleWorkflow ?job
                    (exampleModule ''t1'') ?s3 1 '''' '''' '''')],
          Some (Wrap ''find testing: zz error'' (Err ''no documents in result'')))"
    by (simp add: exampleModule_def)
  have dS: "IToi_testing exampleCatalog (Spec ?jobS) = Inr ?specS"
    by (simp add: exampleCatalog_def testJob_def)
  have tS: "TestType ?specS = ServiceTestType"
    by (simp add: missingSuiteSpec_def fromJobSpec_def serviceSpec_def)
  have srcS: "Source ?specS = SourceFromJob"
    by (simp add: missingSuiteSpec_def fromJobSpec_def serviceSpec_def)
  have nameS: "(if OriginJobName ?specS \<noteq> '''' then OriginJobName ?specS else JobName ?specS)
                 = ''build1''"
    by (simp add: missingSuiteSpec_def fromJobSpec_def serviceSpec_def)
  have tg: "getOriginReferedJobTargets exampleCatalog exampleWorkflow ''build1'' = Inr ?targets"
    by (simp add: getOriginReferedJobTargets_def job_defs)
  have calls: "concat (map (\<lambda>target.
                    filter (\<lambda>testing. ServiceName_sat testing = ServiceName_tgt target
                                     \<and> ServiceModule_sat testing = ServiceModule_tgt target)
                      (ServiceAndTests ?specS)) ?targets) = [?e1] @ ?e2 # []"
    by (simp add: missingSuiteSpec_def)
  have ok2: "\<forall>t \<in> set [?e1].
               \<not> isl (toJobtask exampleCatalog exampleWorkflow ?jobS (TestModule_sat t) ?s3 1
                         (TestType ?specS) (ServiceName_sat t) (ServiceModule_sat t))"
    by (simp add: toJobtask_def Let_def cacheProperties_def job_defs)
  have l2: "TestingColl_Find exampleCatalog (TestName (TestModule_sat ?e2))
              = Inl (Err ''no documents in result'')"
    by (simp add: exampleCatalog_def exampleModule_def)
  from conjunct2 [OF conjunct2 [OF conjunct2 [OF conjunct2 [OF conjunct2 [OF S]]]]]
    dS s3 tS srcS nameS tg calls ok2 l2
  have exS: "ToJobs exampleCatalog exampleWorkflow ?jobS 1
       = ([projr (toJobtask exampleCatalog exampleWorkflow ?jobS
                    (exampleModule ''t1'') ?s3 1 ServiceTestType ''svcA'' ''modA'')],
          Some (Wrap ''find testing: zz error'' (Err ''no documents in result'')))"
    by (simp add: exampleModule_def)
  then have cS: "isError (snd (ToJobs exampleCatalog exampleWorkflow ?jobS 1))"
    by (simp add: isError_def)
  show ?thesis
    using d s3 t sp f1 l a b c ex dS tS srcS tg exS cS by blast
qed

end
